theory Spec2Isabelle
  imports Main
begin

section \<open>The JavaScript runtime, as far as the scripts use it\<close>

subsection \<open>Strings\<close>

text \<open>
  A JavaScript string is modelled as a \<open>string\<close>.  The functions below look only at
  ASCII characters (digits, letters, the five XML specials, white space, \<open>/\<close>, \<open>-\<close>
  and \<open>,\<close>) and treat every other character alike.  White space is the ASCII part of
  what \<open>\s\<close> and \<open>trim\<close> accept, and the no-break space.
\<close>

definition isSpace :: "char \<Rightarrow> bool" where
  "isSpace c \<longleftrightarrow> c \<in> {CHR 0x09, CHR 0x0A, CHR 0x0B, CHR 0x0C, CHR 0x0D, CHR 0x20, CHR 0xA0}"

definition isDigit :: "char \<Rightarrow> bool" where
  "isDigit c \<longleftrightarrow> c \<in> set ''0123456789''"

definition isWordChar :: "char \<Rightarrow> bool" where
  "isWordChar c \<longleftrightarrow>
     c \<in> set ''abcdefghijklmnopqrstuvwxyzABCDEFGHIJKLMNOPQRSTUVWXYZ0123456789_''"

definition digitValue :: "char \<Rightarrow> nat" where
  "digitValue c = of_char c - 48"

definition toNumber :: "string \<Rightarrow> nat" where
  "toNumber ds = foldl (\<lambda>n c. 10 * n + digitValue c) 0 ds"

definition startsWith :: "string \<Rightarrow> string \<Rightarrow> bool" where
  "startsWith s p \<longleftrightarrow> take (length p) s = p"

text \<open>\<open>s.includes(p)\<close>.\<close>

fun str_includes :: "string \<Rightarrow> string \<Rightarrow> bool" where
  "str_includes [] p \<longleftrightarrow> p = []"
| "str_includes (c # cs) p \<longleftrightarrow> startsWith (c # cs) p \<or> str_includes cs p"

definition trim :: "string \<Rightarrow> string" where
  "trim s = rev (dropWhile isSpace (rev (dropWhile isSpace s)))"

text \<open>\<open>s.replace(/c/g, r)\<close> for a pattern that is one literal character.\<close>

definition replaceChar :: "char \<Rightarrow> string \<Rightarrow> string \<Rightarrow> string" where
  "replaceChar c r s = concat (map (\<lambda>x. if x = c then r else [x]) s)"

subsection \<open>Dates\<close>

text \<open>
  A \<open>Date\<close> is its time value: the milliseconds since 1970-01-01T00:00:00Z, or \<open>None\<close>
  for the time value \<open>NaN\<close> of an invalid date.  Day numbers and calendar dates are
  converted by the usual proleptic Gregorian arithmetic.
\<close>

type_synonym date = "int option"

definition isLeapYear :: "int \<Rightarrow> bool" where
  "isLeapYear y \<longleftrightarrow> y mod 4 = 0 \<and> (y mod 100 \<noteq> 0 \<or> y mod 400 = 0)"

definition daysInMonth :: "int \<Rightarrow> int \<Rightarrow> int" where
  "daysInMonth y m =
     (if m = 2 then (if isLeapYear y then 29 else 28)
      else if m \<in> {4, 6, 9, 11} then 30 else 31)"

definition daysFromCivil :: "int \<Rightarrow> int \<Rightarrow> int \<Rightarrow> int" where
  "daysFromCivil y m d =
     (let y' = (if m \<le> 2 then y - 1 else y);
          era = y' div 400;
          yoe = y' - era * 400;
          doy = (153 * (if 2 < m then m - 3 else m + 9) + 2) div 5 + d - 1;
          doe = yoe * 365 + yoe div 4 - yoe div 100 + doy
      in era * 146097 + doe - 719468)"

definition civilFromDays :: "int \<Rightarrow> int \<times> int \<times> int" where
  "civilFromDays z =
     (let z' = z + 719468;
          era = z' div 146097;
          doe = z' - era * 146097;
          yoe = (doe - doe div 1460 + doe div 36524 - doe div 146096) div 365;
          doy = doe - (365 * yoe + yoe div 4 - yoe div 100);
          mp = (5 * doy + 2) div 153;
          d = doy - (153 * mp + 2) div 5 + 1;
          m = (if mp < 10 then mp + 3 else mp - 9);
          y = yoe + era * 400
      in (if m \<le> 2 then y + 1 else y, m, d))"

definition msPerDay :: int where
  "msPerDay = 86400000"

definition dayNames :: "string list" where
  "dayNames = [''Sun'', ''Mon'', ''Tue'', ''Wed'', ''Thu'', ''Fri'', ''Sat'']"

definition monthNames :: "string list" where
  "monthNames = [''Jan'', ''Feb'', ''Mar'', ''Apr'', ''May'', ''Jun'',
                 ''Jul'', ''Aug'', ''Sep'', ''Oct'', ''Nov'', ''Dec'']"

fun decimal :: "nat \<Rightarrow> string" where
  "decimal n =
     (if n < 10 then [char_of (48 + n)] else decimal (n div 10) @ [char_of (48 + n mod 10)])"

declare decimal.simps [simp del]

definition padStart :: "nat \<Rightarrow> string \<Rightarrow> string" where
  "padStart k s = replicate (k - length s) CHR ''0'' @ s"

text \<open>
  \<open>Date.prototype.toUTCString\<close>: the text \<open>Invalid Date\<close> for an invalid date, and
  otherwise weekday, day, month, year and time of day in UTC, as in
  \<open>Tue, 14 Oct 2025 00:00:00 GMT\<close>.  The milliseconds are not printed.
\<close>

definition toUTCString :: "date \<Rightarrow> string" where
  "toUTCString d =
     (case d of
        None \<Rightarrow> ''Invalid Date''
      | Some t \<Rightarrow>
          (let day = t div msPerDay;
               ms = t mod msPerDay;
               (y, m, dd) = civilFromDays day
           in dayNames ! nat ((day + 4) mod 7) @ '', '' @
              padStart 2 (decimal (nat dd)) @ '' '' @
              monthNames ! nat (m - 1) @ '' '' @
              (if y < 0 then ''-'' else []) @ padStart 4 (decimal (nat \<bar>y\<bar>)) @ '' '' @
              padStart 2 (decimal (nat (ms div 3600000))) @ '':'' @
              padStart 2 (decimal (nat (ms div 60000 mod 60))) @ '':'' @
              padStart 2 (decimal (nat (ms div 1000 mod 60))) @ '' GMT''))"

text \<open>
  \<open>new Date(s)\<close> for a string \<open>s\<close>.  ECMAScript fixes the result for the date-only form
  \<open>YYYY-MM-DD\<close>: midnight UTC of that day, and \<open>NaN\<close> when the month or the day is out
  of bounds.  Every other text is left to the engine's own heuristics; those are the
  parameter \<open>engine\<close>.  Two things are taken from the engines as they are: a text with no
  digit at all is never a date (there is no day number in it), and a day of 29 to 31 that
  the month does not have is left to the engine (V8 rolls it over, others reject it).
\<close>

definition isoDateShape :: "string \<Rightarrow> bool" where
  "isoDateShape s \<longleftrightarrow>
     length s = 10 \<and> list_all isDigit (take 4 s) \<and> s ! 4 = CHR ''-'' \<and>
     list_all isDigit (take 2 (drop 5 s)) \<and> s ! 7 = CHR ''-'' \<and> list_all isDigit (drop 8 s)"

definition newDate :: "(string \<Rightarrow> date) \<Rightarrow> string \<Rightarrow> date" where
  "newDate engine s =
     (if isoDateShape s then
        (let y = int (toNumber (take 4 s));
             m = int (toNumber (take 2 (drop 5 s)));
             d = int (toNumber (drop 8 s))
         in if m < 1 \<or> 12 < m \<or> d < 1 \<or> 31 < d then None
            else if d \<le> daysInMonth y m then Some (daysFromCivil y m d * msPerDay)
            else engine s)
      else if \<not> list_ex isDigit s then None
      else engine s)"

text \<open>
  An engine for the closed examples: beyond what \<open>newDate\<close> fixes it reads the output
  format of \<open>toUTCString\<close>, which ECMAScript requires every engine to read back, and
  nothing else.
\<close>

fun position :: "'a \<Rightarrow> 'a list \<Rightarrow> nat" where
  "position x [] = 0"
| "position x (y # ys) = (if x = y then 0 else Suc (position x ys))"

definition utcStringShape :: "string \<Rightarrow> bool" where
  "utcStringShape s \<longleftrightarrow>
     length s = 29 \<and> take 3 s \<in> set dayNames \<and> take 2 (drop 3 s) = '', '' \<and>
     list_all isDigit (take 2 (drop 5 s)) \<and> s ! 7 = CHR '' '' \<and>
     take 3 (drop 8 s) \<in> set monthNames \<and> s ! 11 = CHR '' '' \<and>
     list_all isDigit (take 4 (drop 12 s)) \<and> s ! 16 = CHR '' '' \<and>
     list_all isDigit (take 2 (drop 17 s)) \<and> s ! 19 = CHR '':'' \<and>
     list_all isDigit (take 2 (drop 20 s)) \<and> s ! 22 = CHR '':'' \<and>
     list_all isDigit (take 2 (drop 23 s)) \<and> drop 25 s = '' GMT''"

definition utcEngine :: "string \<Rightarrow> date" where
  "utcEngine s =
     (if utcStringShape s then
        (let d = int (toNumber (take 2 (drop 5 s)));
             m = int (position (take 3 (drop 8 s)) monthNames) + 1;
             y = int (toNumber (take 4 (drop 12 s)));
             h = int (toNumber (take 2 (drop 17 s)));
             mi = int (toNumber (take 2 (drop 20 s)));
             sec = int (toNumber (take 2 (drop 23 s)))
         in if 1 \<le> d \<and> d \<le> daysInMonth y m \<and> h < 24 \<and> mi < 60 \<and> sec < 60
            then Some (daysFromCivil y m d * msPerDay + h * 3600000 + mi * 60000 + sec * 1000)
            else None)
      else None)"

subsection \<open>Arrays\<close>

text \<open>\<open>xs.slice(0, e)\<close> for an integer \<open>e\<close>; a negative \<open>e\<close> counts from the end.\<close>

definition slice0 :: "'a list \<Rightarrow> int \<Rightarrow> 'a list" where
  "slice0 xs e = (if e < 0 then take (nat (int (length xs) + e)) xs else take (nat e) xs)"

text \<open>
  \<open>xs.sort(cmp)\<close>.  The comparator returns a number, \<open>None\<close> standing for \<open>NaN\<close>, which
  the sort reads as \<open>+0\<close>.  The sort is stable.  For a comparator that orders the
  elements consistently ECMAScript fixes the result, and insertion from the right
  computes it.  For an inconsistent comparator (one that returns \<open>NaN\<close> for some pairs
  only) the order is left to the engine; V8 sorts arrays this short by binary insertion,
  which on the inputs evaluated below gives what this function gives.
\<close>

definition sortCompare :: "('a \<Rightarrow> 'a \<Rightarrow> int option) \<Rightarrow> 'a \<Rightarrow> 'a \<Rightarrow> int" where
  "sortCompare cmp x y = (case cmp x y of None \<Rightarrow> 0 | Some v \<Rightarrow> v)"

fun insertSorted :: "('a \<Rightarrow> 'a \<Rightarrow> int option) \<Rightarrow> 'a \<Rightarrow> 'a list \<Rightarrow> 'a list" where
  "insertSorted cmp x [] = [x]"
| "insertSorted cmp x (y # ys) =
     (if sortCompare cmp x y \<le> 0 then x # y # ys else y # insertSorted cmp x ys)"

definition arraySort :: "('a \<Rightarrow> 'a \<Rightarrow> int option) \<Rightarrow> 'a list \<Rightarrow> 'a list" where
  "arraySort cmp xs = foldr (insertSorted cmp) xs []"

text \<open>\<open>a - b\<close> for two dates: the difference of the time values, \<open>NaN\<close> if either is.\<close>

definition dateMinus :: "date \<Rightarrow> date \<Rightarrow> int option" where
  "dateMinus a b = (case (a, b) of (Some x, Some y) \<Rightarrow> Some (x - y) | _ \<Rightarrow> None)"

text \<open>\<open>s.split(c)\<close> for a separator of one character, and \<open>xs.map(f)\<close> with the index at
  which each element stands.\<close>

fun splitChar :: "char \<Rightarrow> string \<Rightarrow> string list" where
  "splitChar c [] = [[]]"
| "splitChar c (x # xs) =
     (if x = c then [] # splitChar c xs
      else (case splitChar c xs of p # ps \<Rightarrow> (x # p) # ps | [] \<Rightarrow> [[x]]))"

definition mapIndexed :: "(nat \<Rightarrow> 'a \<Rightarrow> 'b) \<Rightarrow> 'a list \<Rightarrow> 'b list" where
  "mapIndexed f xs = map (\<lambda>(i, x). f i x) (zip [0..<length xs] xs)"

section \<open>What both scripts share\<close>

record raw_episode =
  title :: string
  link :: string
  dateText :: string
  audioUrl :: string
  description :: string

record episode = raw_episode +
  dateObj :: date
  pubDate :: string
  guid :: string

definition escapeXml :: "string \<Rightarrow> string" where
  "escapeXml str =
     replaceChar (CHR 0x27) ''&apos;''
       (replaceChar (CHR 0x22) ''&quot;''
         (replaceChar CHR ''>'' ''&gt;''
           (replaceChar CHR ''<'' ''&lt;''
             (replaceChar CHR ''&'' ''&amp;'' str))))"

text \<open>
  \<open>sanitizeDescription\<close>: \<open>replace(/<[^>]*>/g, "")\<close> deletes, from left to right, every
  \<open><\<close> together with everything up to the next \<open>>\<close>; a \<open><\<close> with no \<open>>\<close> after it
  stays.  \<open>replace(/\s+/g, " ")\<close> puts one space for every run of white space.
\<close>

function stripTags :: "string \<Rightarrow> string" where
  "stripTags [] = []"
| "stripTags (c # cs) =
     (if c = CHR ''<'' \<and> CHR ''>'' \<in> set cs
      then stripTags (tl (dropWhile (\<lambda>x. x \<noteq> CHR ''>'') cs))
      else c # stripTags cs)"
  by pat_completeness auto
termination
proof (relation "measure length")
  fix c :: char and cs :: string
  have "length (tl (dropWhile (\<lambda>x. x \<noteq> CHR ''>'') cs))
          \<le> length (dropWhile (\<lambda>x. x \<noteq> CHR ''>'') cs)"
    by simp
  also have "\<dots> \<le> length cs"
    by (rule length_dropWhile_le)
  finally show "(tl (dropWhile (\<lambda>x. x \<noteq> CHR ''>'') cs), c # cs) \<in> measure length"
    by simp
qed simp_all

function collapseSpaces :: "string \<Rightarrow> string" where
  "collapseSpaces [] = []"
| "collapseSpaces (c # cs) =
     (if isSpace c then CHR '' '' # collapseSpaces (dropWhile isSpace cs)
      else c # collapseSpaces cs)"
  by pat_completeness auto
termination
  by (relation "measure length") (simp_all add: length_dropWhile_le less_Suc_eq_le)

definition sanitizeDescription :: "string \<Rightarrow> string" where
  "sanitizeDescription desc = trim (collapseSpaces (stripTags desc))"

section \<open>The full build (scrape-jazz-night.mjs)\<close>

record config =
  SERIES_URL :: string
  MAX_EPISODES :: int
  SELF_FEED_URL :: string

definition FEED_TITLE :: string where
  "FEED_TITLE = ''Jazz Night In America: The Radio Program (Full Archive)''"

definition FEED_DESCRIPTION :: string where
  "FEED_DESCRIPTION = ''Scraped archive of NPR'' @ [CHR 0x27] @
     ''s Jazz Night In America radio episodes, with direct MP3 enclosures, formatted for Zune.''"

definition FEED_LANGUAGE :: string where
  "FEED_LANGUAGE = ''en-us''"

text \<open>
  \<open>parseDateToRss\<close> of the full build.  After a failed parse a text with exactly two
  slashes is put together again from its three parts and parsed once more.
\<close>

definition scrape_parseDateToRss :: "(string \<Rightarrow> date) \<Rightarrow> string \<Rightarrow> date \<Rightarrow> string" where
  "scrape_parseDateToRss engine dateStr fallback =
     (if dateStr = [] \<or> trim dateStr = [] then toUTCString fallback
      else
        (let d = newDate engine dateStr;
             d = (if d = None \<and> str_includes dateStr ''/'' then
                    (let parts = splitChar CHR ''/'' dateStr in
                     if length parts = 3
                     then newDate engine (parts ! 0 @ ''/'' @ parts ! 1 @ ''/'' @ parts ! 2)
                     else d)
                  else d)
         in if d \<noteq> None then toUTCString d else toUTCString fallback))"

text \<open>
  The step of \<open>main\<close> that makes an episode of a raw episode.  \<open>now\<close> is what the clock
  shows when this episode is reached; it is read only when there is no date text.
\<close>

definition scrape_toEpisode :: "(string \<Rightarrow> date) \<Rightarrow> int \<Rightarrow> raw_episode \<Rightarrow> episode" where
  "scrape_toEpisode engine now ep =
     (let d = (if dateText ep \<noteq> [] then newDate engine (dateText ep) else Some now)
      in \<lparr>title = title ep, link = link ep, dateText = dateText ep, audioUrl = audioUrl ep,
          description = description ep,
          dateObj = d, pubDate = scrape_parseDateToRss engine (dateText ep) d,
          guid = audioUrl ep\<rparr>)"

definition compareDateObj :: "episode \<Rightarrow> episode \<Rightarrow> int option" where
  "compareDateObj a b = dateMinus (dateObj b) (dateObj a)"

text \<open>The first two lines of \<open>buildRss\<close>: the episodes that go into the feed.\<close>

definition buildRss_episodes :: "int \<Rightarrow> episode list \<Rightarrow> episode list" where
  "buildRss_episodes cap episodes = slice0 (arraySort compareDateObj episodes) cap"

definition orElse :: "string \<Rightarrow> string \<Rightarrow> string" where
  "orElse s t = (if s \<noteq> [] then s else t)"

definition itemXml :: "config \<Rightarrow> string \<Rightarrow> episode \<Rightarrow> string" where
  "itemXml cfg lastBuildDate ep =
     ''  <item>'' @ [CHR 0x0A] @
     ''    <title>'' @ escapeXml (orElse (title ep) ''Untitled episode'') @ ''</title>'' @ [CHR 0x0A] @
     ''    <link>'' @ escapeXml (orElse (link ep) (SERIES_URL cfg)) @ ''</link>'' @ [CHR 0x0A] @
     ''    <guid isPermaLink='' @ [CHR 0x22] @ ''false'' @ [CHR 0x22] @ ''>'' @
        escapeXml (orElse (guid ep) (audioUrl ep)) @ ''</guid>'' @ [CHR 0x0A] @
     ''    <pubDate>'' @ escapeXml (orElse (pubDate ep) lastBuildDate) @ ''</pubDate>'' @ [CHR 0x0A] @
     ''    <description>'' @ escapeXml (sanitizeDescription (description ep)) @
        ''</description>'' @ [CHR 0x0A] @
     ''    <enclosure url='' @ [CHR 0x22] @ escapeXml (audioUrl ep) @ [CHR 0x22] @
        '' length='' @ [CHR 0x22] @ ''0'' @ [CHR 0x22] @
        '' type='' @ [CHR 0x22] @ ''audio/mpeg'' @ [CHR 0x22] @ '' />'' @ [CHR 0x0A] @
     ''  </item>''"

fun joinWith :: "string \<Rightarrow> string list \<Rightarrow> string" where
  "joinWith sep [] = []"
| "joinWith sep [x] = x"
| "joinWith sep (x # y # ys) = x @ sep @ joinWith sep (y # ys)"

definition imageBlock :: "config \<Rightarrow> string \<Rightarrow> string" where
  "imageBlock cfg channelImageUrl =
     (if channelImageUrl \<noteq> [] then
        joinWith [CHR 0x0A]
          [''  <image>'',
           ''    <url>'' @ escapeXml channelImageUrl @ ''</url>'',
           ''    <title>'' @ escapeXml FEED_TITLE @ ''</title>'',
           ''    <link>'' @ escapeXml (SERIES_URL cfg) @ ''</link>'',
           ''  </image>'',
           ''  <itunes:image href='' @ [CHR 0x22] @ escapeXml channelImageUrl @ [CHR 0x22] @ '' />'',
           []]
      else [])"

definition buildRss :: "config \<Rightarrow> int \<Rightarrow> episode list \<Rightarrow> string \<Rightarrow> string" where
  "buildRss cfg now episodes channelImageUrl =
     (let episodes = buildRss_episodes (MAX_EPISODES cfg) episodes;
          lastBuildDate = toUTCString (Some now);
          itemsXml = joinWith [CHR 0x0A, CHR 0x0A] (map (itemXml cfg lastBuildDate) episodes)
      in ''<?xml version='' @ [CHR 0x22] @ ''1.0'' @ [CHR 0x22] @ '' encoding='' @ [CHR 0x22] @
           ''UTF-8'' @ [CHR 0x22] @ ''?>'' @ [CHR 0x0A] @
         ''<rss version='' @ [CHR 0x22] @ ''2.0'' @ [CHR 0x22] @ [CHR 0x0A] @
         ''     xmlns:itunes='' @ [CHR 0x22] @ ''http://www.itunes.com/dtds/podcast-1.0.dtd'' @
           [CHR 0x22] @ [CHR 0x0A] @
         ''     xmlns:atom='' @ [CHR 0x22] @ ''http://www.w3.org/2005/Atom'' @ [CHR 0x22] @ ''>'' @
           [CHR 0x0A] @
         ''<channel>'' @ [CHR 0x0A] @
         ''  <title>'' @ escapeXml FEED_TITLE @ ''</title>'' @ [CHR 0x0A] @
         ''  <link>'' @ escapeXml (SERIES_URL cfg) @ ''</link>'' @ [CHR 0x0A] @
         ''  <atom:link href='' @ [CHR 0x22] @ escapeXml (SELF_FEED_URL cfg) @ [CHR 0x22] @
           '' rel='' @ [CHR 0x22] @ ''self'' @ [CHR 0x22] @
           '' type='' @ [CHR 0x22] @ ''application/rss+xml'' @ [CHR 0x22] @ '' />'' @ [CHR 0x0A] @
         ''  <description>'' @ escapeXml (sanitizeDescription FEED_DESCRIPTION) @
           ''</description>'' @ [CHR 0x0A] @
         ''  <language>'' @ escapeXml FEED_LANGUAGE @ ''</language>'' @ [CHR 0x0A] @
         ''  <lastBuildDate>'' @ escapeXml lastBuildDate @ ''</lastBuildDate>'' @
           [CHR 0x0A, CHR 0x0A] @
         imageBlock cfg channelImageUrl @ itemsXml @
         [CHR 0x0A] @ ''</channel>'' @ [CHR 0x0A] @ ''</rss>'' @ [CHR 0x0A])"

text \<open>
  The part of \<open>main\<close> between scraping and writing the file: \<open>clock i\<close> is the time read
  for the \<open>i\<close>-th raw episode, \<open>buildNow\<close> the time read in \<open>buildRss\<close>.
\<close>

definition scrape_episodes :: "(string \<Rightarrow> date) \<Rightarrow> (nat \<Rightarrow> int) \<Rightarrow> raw_episode list \<Rightarrow> episode list" where
  "scrape_episodes engine clock rawEpisodes =
     mapIndexed (\<lambda>i ep. scrape_toEpisode engine (clock i) ep) rawEpisodes"

definition scrape_feedItems ::
  "(string \<Rightarrow> date) \<Rightarrow> (nat \<Rightarrow> int) \<Rightarrow> int \<Rightarrow> raw_episode list \<Rightarrow> episode list" where
  "scrape_feedItems engine clock cap rawEpisodes =
     buildRss_episodes cap (scrape_episodes engine clock rawEpisodes)"

section \<open>Regular expressions\<close>

text \<open>
  The patterns of the scripts are sequences of literal texts, alternatives of literal
  words, bounded or unbounded greedy repetitions of a character class, and \<open>\b\<close>.
  \<open>matchHere\<close> matches such a sequence at the start of a text with backtracking, in the
  order JavaScript tries the possibilities (alternatives from the left, longer
  repetitions first), and returns the length of the match; it is told the character
  before the text, for \<open>\b\<close>.  \<open>searchFrom\<close> finds the leftmost position at which the
  pattern matches.
\<close>

datatype cclass = Digit | Space

fun inClass :: "cclass \<Rightarrow> char \<Rightarrow> bool" where
  "inClass Digit c = isDigit c"
| "inClass Space c = isSpace c"

datatype atom =
    Lit string
  | OneOf "string list"
  | Rep cclass nat "nat option"
  | WordBoundary

type_synonym regex = "atom list"

fun tryLengths :: "(nat \<Rightarrow> nat option) \<Rightarrow> nat \<Rightarrow> nat \<Rightarrow> nat option" where
  "tryLengths k lo 0 = (if lo = 0 then k 0 else None)"
| "tryLengths k lo (Suc n) =
     (if Suc n < lo then None
      else (case k (Suc n) of Some m \<Rightarrow> Some m | None \<Rightarrow> tryLengths k lo n))"

fun firstSome :: "('a \<Rightarrow> 'b option) \<Rightarrow> 'a list \<Rightarrow> 'b option" where
  "firstSome f [] = None"
| "firstSome f (x # xs) = (case f x of Some y \<Rightarrow> Some y | None \<Rightarrow> firstSome f xs)"

definition lastChar :: "char option \<Rightarrow> string \<Rightarrow> char option" where
  "lastChar prev w = (if w = [] then prev else Some (last w))"

definition atBoundary :: "char option \<Rightarrow> string \<Rightarrow> bool" where
  "atBoundary prev s \<longleftrightarrow>
     (case prev of None \<Rightarrow> False | Some c \<Rightarrow> isWordChar c) \<noteq>
     (case s of [] \<Rightarrow> False | c # cs \<Rightarrow> isWordChar c)"

fun matchHere :: "regex \<Rightarrow> char option \<Rightarrow> string \<Rightarrow> nat option" where
  "matchHere [] prev s = Some 0"
| "matchHere (Lit w # r) prev s =
     (if startsWith s w
      then map_option (\<lambda>m. length w + m) (matchHere r (lastChar prev w) (drop (length w) s))
      else None)"
| "matchHere (OneOf ws # r) prev s =
     firstSome (\<lambda>w. if startsWith s w
                     then map_option (\<lambda>m. length w + m)
                            (matchHere r (lastChar prev w) (drop (length w) s))
                     else None) ws"
| "matchHere (Rep cls lo hi # r) prev s =
     (let run = length (takeWhile (inClass cls) s);
          n = (case hi of None \<Rightarrow> run | Some h \<Rightarrow> min h run)
      in tryLengths (\<lambda>k. map_option (\<lambda>m. k + m)
                              (matchHere r (lastChar prev (take k s)) (drop k s))) lo n)"
| "matchHere (WordBoundary # r) prev s =
     (if atBoundary prev s then matchHere r prev s else None)"

fun searchFrom :: "regex \<Rightarrow> char option \<Rightarrow> string \<Rightarrow> nat \<Rightarrow> (nat \<times> nat) option" where
  "searchFrom re prev [] i = (case matchHere re prev [] of Some m \<Rightarrow> Some (i, m) | None \<Rightarrow> None)"
| "searchFrom re prev (c # cs) i =
     (case matchHere re prev (c # cs) of
        Some m \<Rightarrow> Some (i, m)
      | None \<Rightarrow> searchFrom re (Some c) cs (Suc i))"

text \<open>\<open>s.match(re)\<close>: where the leftmost match starts and how long it is; \<open>match[0]\<close>;
  and \<open>re.test(s)\<close>.\<close>

definition regexSearch :: "regex \<Rightarrow> string \<Rightarrow> (nat \<times> nat) option" where
  "regexSearch re s = searchFrom re None s 0"

definition regexMatch :: "regex \<Rightarrow> string \<Rightarrow> string option" where
  "regexMatch re s = map_option (\<lambda>(i, m). take m (drop i s)) (regexSearch re s)"

definition regexTest :: "regex \<Rightarrow> string \<Rightarrow> bool" where
  "regexTest re s \<longleftrightarrow> regexSearch re s \<noteq> None"

definition toLower :: "char \<Rightarrow> char" where
  "toLower c = (if c \<in> set ''ABCDEFGHIJKLMNOPQRSTUVWXYZ'' then char_of (of_char c + (32::nat)) else c)"

text \<open>\<open>/\/(\d{4})\/\d{2}\/(\d{8})/\<close>; its second group starts 9 characters into the
  match.\<close>

definition urlDateRe :: regex where
  "urlDateRe = [Lit ''/'', Rep Digit 4 (Some 4), Lit ''/'', Rep Digit 2 (Some 2), Lit ''/'',
                Rep Digit 8 (Some 8)]"

definition fullMonthRe :: regex where
  "fullMonthRe =
     [WordBoundary,
      OneOf [''January'', ''February'', ''March'', ''April'', ''May'', ''June'', ''July'',
             ''August'', ''September'', ''October'', ''November'', ''December''],
      Rep Space 1 None, Rep Digit 1 (Some 2), Lit '','', Rep Space 1 None,
      Rep Digit 4 (Some 4), WordBoundary]"

definition abbrMonthRe :: regex where
  "abbrMonthRe =
     [WordBoundary,
      OneOf [''Jan'', ''Feb'', ''Mar'', ''Apr'', ''May'', ''Jun'', ''Jul'', ''Aug'', ''Sep'',
             ''Oct'', ''Nov'', ''Dec''],
      Rep Space 1 None, Rep Digit 1 (Some 2), Lit '','', Rep Space 1 None,
      Rep Digit 4 (Some 4), WordBoundary]"

definition isoDateRe :: regex where
  "isoDateRe = [WordBoundary, Rep Digit 4 (Some 4), Lit ''-'', Rep Digit 2 (Some 2), Lit ''-'',
                Rep Digit 2 (Some 2), WordBoundary]"

definition slashDateRe :: regex where
  "slashDateRe = [WordBoundary, Rep Digit 1 (Some 2), Lit ''/'', Rep Digit 1 (Some 2), Lit ''/'',
                  Rep Digit 4 (Some 4), WordBoundary]"

text \<open>\<open>/\/20\d{2}\//\<close>.\<close>

definition yearPathRe :: regex where
  "yearPathRe = [Lit ''/20'', Rep Digit 2 (Some 2), Lit ''/'']"

section \<open>The incremental update (update-jazz-night.mjs)\<close>

text \<open>
  An item of the feed as xml2js holds it: every text child is a one-element array,
  \<open>guid\<close> carries its text beside the attribute \<open>isPermaLink\<close>, and \<open>enclosure\<close> has
  attributes only.  An item read from the file may have no \<open>enclosure\<close>;
  \<open>extractExistingAudioUrls\<close> allows for that, so the URL is optional here.  The other
  children are the ones the feed format requires of every item.
\<close>

record xml_item =
  item_title :: string
  item_link :: string
  item_guid :: string
  item_pubDate :: string
  item_description :: string
  item_enclosure_url :: "string option"

record feed =
  items :: "xml_item list"
  lastBuildDate :: string

definition update_MAX_EPISODES :: int where
  "update_MAX_EPISODES = 100"

definition MAX_NEW_EPISODES_TO_CHECK :: nat where
  "MAX_NEW_EPISODES_TO_CHECK = 20"

definition update_FEED_LINK :: string where
  "update_FEED_LINK = ''https://www.npr.org/series/347174538/jazz-night-radio''"

definition update_parseDateToRss :: "(string \<Rightarrow> date) \<Rightarrow> string \<Rightarrow> date \<Rightarrow> string" where
  "update_parseDateToRss engine dateStr fallback =
     (let d = newDate engine dateStr
      in if d \<noteq> None then toUTCString d else toUTCString fallback)"

definition extractExistingAudioUrls :: "feed \<Rightarrow> string set" where
  "extractExistingAudioUrls feedData =
     set (concat (map (\<lambda>item. case item_enclosure_url item of
                                   None \<Rightarrow> []
                                 | Some url \<Rightarrow> (if url \<noteq> [] then [url] else []))
                      (items feedData)))"

definition createItemXml :: "episode \<Rightarrow> xml_item" where
  "createItemXml ep =
     \<lparr>item_title = escapeXml (orElse (title ep) ''Untitled episode''),
      item_link = escapeXml (orElse (link ep) update_FEED_LINK),
      item_guid = escapeXml (orElse (guid ep) (audioUrl ep)),
      item_pubDate = escapeXml (pubDate ep),
      item_description = escapeXml (sanitizeDescription (description ep)),
      item_enclosure_url = Some (escapeXml (audioUrl ep))\<rparr>"

definition update_toEpisode :: "(string \<Rightarrow> date) \<Rightarrow> int \<Rightarrow> raw_episode \<Rightarrow> episode" where
  "update_toEpisode engine now ep =
     (let d = (if dateText ep \<noteq> [] then newDate engine (dateText ep) else Some now)
      in \<lparr>title = title ep, link = link ep, dateText = dateText ep, audioUrl = audioUrl ep,
          description = description ep,
          dateObj = d, pubDate = update_parseDateToRss engine (dateText ep) d,
          guid = audioUrl ep\<rparr>)"

definition comparePubDate :: "(string \<Rightarrow> date) \<Rightarrow> xml_item \<Rightarrow> xml_item \<Rightarrow> int option" where
  "comparePubDate engine a b =
     dateMinus (newDate engine (item_pubDate b)) (newDate engine (item_pubDate a))"

text \<open>
  \<open>updateFeedWithNewEpisodes\<close> changes the feed object in place and returns whether it
  did; here it returns the flag and the feed.  \<open>clock i\<close> is the time read for the
  \<open>i\<close>-th new episode, and the next reading stamps \<open>lastBuildDate\<close>.
\<close>

definition newEpisodesFiltered :: "raw_episode list \<Rightarrow> string set \<Rightarrow> raw_episode list" where
  "newEpisodesFiltered newEpisodes existingUrls =
     filter (\<lambda>ep. audioUrl ep \<notin> existingUrls) newEpisodes"

definition newItemsXml ::
  "(string \<Rightarrow> date) \<Rightarrow> (nat \<Rightarrow> int) \<Rightarrow> raw_episode list \<Rightarrow> xml_item list" where
  "newItemsXml engine clock filtered =
     map createItemXml (mapIndexed (\<lambda>i ep. update_toEpisode engine (clock i) ep) filtered)"

definition updateFeedWithNewEpisodes ::
  "(string \<Rightarrow> date) \<Rightarrow> (nat \<Rightarrow> int) \<Rightarrow> feed \<Rightarrow> raw_episode list \<Rightarrow> string set \<Rightarrow> bool \<times> feed" where
  "updateFeedWithNewEpisodes engine clock existingFeed newEpisodes existingUrls =
     (let filtered = newEpisodesFiltered newEpisodes existingUrls in
      if filtered = [] then (False, existingFeed)
      else
        (let allItems = newItemsXml engine clock filtered @ items existingFeed;
             limitedItems = slice0 (arraySort (comparePubDate engine) allItems) update_MAX_EPISODES
         in (True, existingFeed\<lparr>items := limitedItems,
                                lastBuildDate := toUTCString (Some (clock (length filtered)))\<rparr>)))"

text \<open>
  \<open>main\<close> of the update.  The disk holds the feed file or nothing.  Reading the file
  with xml2js (\<open>parseXml\<close>, which may reject), scraping the page (\<open>recentEpisodes\<close>, which
  may reject) and writing the file with the xml2js builder (\<open>buildXml\<close>) are the
  collaborators.  The result is the disk afterwards and the exit code.
\<close>

definition update_main ::
  "(string \<Rightarrow> feed option) \<Rightarrow> (feed \<Rightarrow> string) \<Rightarrow> (string \<Rightarrow> date) \<Rightarrow> (nat \<Rightarrow> int) \<Rightarrow>
     raw_episode list option \<Rightarrow> string option \<Rightarrow> string option \<times> nat" where
  "update_main parseXml buildXml engine clock recentEpisodes disk =
     (case disk of
        None \<Rightarrow> (disk, 1)
      | Some xmlContent \<Rightarrow>
          (case parseXml xmlContent of
             None \<Rightarrow> (disk, 1)
           | Some existingFeed \<Rightarrow>
               (case recentEpisodes of
                  None \<Rightarrow> (disk, 1)
                | Some recent \<Rightarrow>
                    (let (wasUpdated, newFeed) =
                           updateFeedWithNewEpisodes engine clock existingFeed recent
                             (extractExistingAudioUrls existingFeed)
                     in if wasUpdated then (Some (buildXml newFeed), 0) else (disk, 0)))))"

text \<open>
  Running the update again on its own result: the feed in memory is written, read back
  and merged with what the page shows then.  Writing and reading back return the same
  items (the builder escapes what the parser unescapes), so the second run starts from
  the items the first one left.
\<close>

definition mergeNew :: "(string \<Rightarrow> date) \<Rightarrow> (nat \<Rightarrow> int) \<Rightarrow> feed \<Rightarrow> raw_episode list \<Rightarrow> feed" where
  "mergeNew engine clock existingFeed newEpisodes =
     snd (updateFeedWithNewEpisodes engine clock existingFeed newEpisodes
            (extractExistingAudioUrls existingFeed))"

section \<open>The XML collaborator, for the text of an element\<close>




section \<open>Episode extraction\<close>

text \<open>
  What the in-page scripts read of the document.  Of an anchor: its \<open>href\<close>, its text,
  and the tag name and text of its parent element.  Of an element: its tag name, the
  anchors inside it in document order (\<open>querySelectorAll("a")\<close>) and its text.  How the
  description of an episode is put together from the text of its container (the text
  after a bullet, or else the first long block that is not boilerplate) bears on no
  property below and is the parameter \<open>describe\<close> of both extraction passes.
\<close>

record anchor =
  a_href :: string
  a_text :: string
  a_parentTag :: string
  a_parentText :: string

record element =
  e_tag :: string
  e_anchors :: "anchor list"
  e_text :: string

text \<open>The title-anchor test, the same in both scripts: the anchor has text, is neither a
  download nor an embed link, and has a year of this century in its path.\<close>

definition isTitleCandidate :: "anchor \<Rightarrow> bool" where
  "isTitleCandidate el \<longleftrightarrow>
     trim (a_text el) \<noteq> [] \<and>
     \<not> str_includes (a_href el) ''ondemand.npr.org'' \<and>
     \<not> str_includes (a_href el) ''player/embed'' \<and>
     regexTest yearPathRe (a_href el)"

definition titleOf :: "anchor option \<Rightarrow> string" where
  "titleOf titleAnchor =
     (case titleAnchor of
        None \<Rightarrow> ''Untitled episode''
      | Some el \<Rightarrow> orElse (trim (a_text el)) ''Untitled episode'')"

definition linkOf :: "anchor option \<Rightarrow> string \<Rightarrow> string" where
  "linkOf titleAnchor url =
     (case titleAnchor of None \<Rightarrow> url | Some el \<Rightarrow> orElse (a_href el) url)"

text \<open>The closing filter of both passes: the first record of every \<open>audioUrl\<close> stays.\<close>

fun dedupe :: "string set \<Rightarrow> raw_episode list \<Rightarrow> raw_episode list" where
  "dedupe seen [] = []"
| "dedupe seen (ep # eps) =
     (if audioUrl ep \<in> seen then dedupe seen eps
      else ep # dedupe (insert (audioUrl ep) seen) eps)"

subsection \<open>\<open>scrapeEpisodes\<close> of the full build\<close>

text \<open>
  An \<open>article.item\<close>: the anchors inside its first \<open>li.audio-tool-download\<close> (\<open>None\<close> when
  it has no such element), and the article as an element.
\<close>

record article =
  downloadLi :: "anchor list option"
  body :: element

definition urlDateText :: "string \<Rightarrow> string" where
  "urlDateText url =
     (case regexSearch urlDateRe url of
        None \<Rightarrow> []
      | Some (i, m) \<Rightarrow>
          (let dateStr = take 8 (drop (i + 9) url)
           in if length dateStr = 8
              then take 4 dateStr @ ''-'' @ take 2 (drop 4 dateStr) @ ''-'' @ take 2 (drop 6 dateStr)
              else []))"

definition scrape_dateText :: "string \<Rightarrow> string \<Rightarrow> string" where
  "scrape_dateText url contextText =
     (if urlDateText url \<noteq> [] then urlDateText url
      else
        (case regexMatch fullMonthRe contextText of
           Some m \<Rightarrow> m
         | None \<Rightarrow>
             (case regexMatch abbrMonthRe contextText of
                Some m \<Rightarrow> m
              | None \<Rightarrow>
                  (case regexMatch isoDateRe contextText of
                     Some m \<Rightarrow> m
                   | None \<Rightarrow>
                       (case regexMatch slashDateRe contextText of
                          Some m \<Rightarrow> m
                        | None \<Rightarrow> [])))))"

definition scrape_titleAnchor :: "article \<Rightarrow> anchor option" where
  "scrape_titleAnchor art = find isTitleCandidate (e_anchors (body art))"

definition scrape_article :: "(element \<Rightarrow> string \<Rightarrow> string) \<Rightarrow> article \<Rightarrow> raw_episode option" where
  "scrape_article describe art =
     (case downloadLi art of
        None \<Rightarrow> None
      | Some inLi \<Rightarrow>
          (case find (\<lambda>a. str_includes (a_href a) ''ondemand.npr.org'') inLi of
             None \<Rightarrow> None
           | Some downloadAnchor \<Rightarrow>
               if a_href downloadAnchor = [] then None
               else
                 (let url = a_href downloadAnchor;
                      titleAnchor = scrape_titleAnchor art;
                      t = titleOf titleAnchor
                  in Some \<lparr>title = t, link = linkOf titleAnchor url,
                           dateText = scrape_dateText url (e_text (body art)),
                           audioUrl = url, description = describe (body art) t\<rparr>)))"

definition scrapeEpisodes ::
  "(element \<Rightarrow> string \<Rightarrow> string) \<Rightarrow> int \<Rightarrow> article list \<Rightarrow> raw_episode list" where
  "scrapeEpisodes describe cap articleItems =
     (let episodes = dedupe {} (List.map_filter (scrape_article describe) articleItems)
      in if cap < int (length episodes) then slice0 episodes cap else episodes)"

subsection \<open>\<open>scrapeRecentEpisodes\<close> of the incremental update\<close>

text \<open>
  An anchor of the document with its ancestors, the parent element first.
  \<open>a.closest(tag)\<close> is the nearest ancestor with that tag; \<open>closestChain\<close> returns it with
  the ancestors above it, which is the path \<open>findTitleAnchor\<close> climbs.  An anchor found
  in the document always has a parent element, so the fallback \<open>document.body\<close> is
  never taken; an anchor without ancestors gets the empty path here.
\<close>

record doc_anchor =
  d_href :: string
  d_text :: string
  d_ancestors :: "element list"

definition isDownloadAnchor :: "doc_anchor \<Rightarrow> bool" where
  "isDownloadAnchor a \<longleftrightarrow>
     str_includes (map toLower (trim (d_text a))) ''download'' \<and>
     str_includes (d_href a) ''ondemand.npr.org''"

definition closestChain :: "string \<Rightarrow> element list \<Rightarrow> element list" where
  "closestChain tag ancestors = dropWhile (\<lambda>e. map toLower (e_tag e) \<noteq> tag) ancestors"

definition containerChain :: "doc_anchor \<Rightarrow> element list" where
  "containerChain a =
     (if closestChain ''article'' (d_ancestors a) \<noteq> [] then closestChain ''article'' (d_ancestors a)
      else if closestChain ''li'' (d_ancestors a) \<noteq> [] then closestChain ''li'' (d_ancestors a)
      else if closestChain ''section'' (d_ancestors a) \<noteq> [] then closestChain ''section'' (d_ancestors a)
      else if closestChain ''div'' (d_ancestors a) \<noteq> [] then closestChain ''div'' (d_ancestors a)
      else d_ancestors a)"

definition isHeadingChild :: "anchor \<Rightarrow> bool" where
  "isHeadingChild el \<longleftrightarrow>
     str_includes (map toLower (a_parentTag el)) ''h1'' \<or>
     str_includes (map toLower (a_parentTag el)) ''h2''"

text \<open>\<open>findTitleAnchor\<close>: \<open>chain\<close> is the start node followed by its ancestors, \<open>depth\<close>
  the levels already climbed.\<close>

fun findTitleAnchorFrom :: "nat \<Rightarrow> element list \<Rightarrow> anchor option" where
  "findTitleAnchorFrom depth [] = None"
| "findTitleAnchorFrom depth (node # up) =
     (if depth < 10 then
        (let candidates = filter isTitleCandidate (e_anchors node)
         in if candidates \<noteq> [] then
              (case find isHeadingChild candidates of
                 Some el \<Rightarrow> Some el
               | None \<Rightarrow> Some (hd candidates))
            else findTitleAnchorFrom (depth + 1) up)
      else None)"

definition findTitleAnchor :: "element list \<Rightarrow> anchor option" where
  "findTitleAnchor chain = findTitleAnchorFrom 0 chain"

definition update_dateText :: "string \<Rightarrow> string" where
  "update_dateText contextText =
     (case regexMatch fullMonthRe contextText of Some m \<Rightarrow> m | None \<Rightarrow> [])"

definition update_contextText :: "anchor option \<Rightarrow> element list \<Rightarrow> string" where
  "update_contextText titleAnchor chain =
     (case titleAnchor of
        Some el \<Rightarrow> a_parentText el
      | None \<Rightarrow> (case chain of [] \<Rightarrow> [] | container # up \<Rightarrow> e_text container))"

definition update_anchor ::
  "(element list \<Rightarrow> string \<Rightarrow> string) \<Rightarrow> doc_anchor \<Rightarrow> raw_episode option" where
  "update_anchor describe a =
     (if d_href a = [] then None
      else
        (let url = d_href a;
             chain = containerChain a;
             titleAnchor = findTitleAnchor chain;
             t = titleOf titleAnchor
         in Some \<lparr>title = t, link = linkOf titleAnchor url,
                  dateText = update_dateText (update_contextText titleAnchor chain),
                  audioUrl = url, description = describe chain t\<rparr>))"

definition scrapeRecentEpisodes ::
  "(element list \<Rightarrow> string \<Rightarrow> string) \<Rightarrow> doc_anchor list \<Rightarrow> raw_episode list" where
  "scrapeRecentEpisodes describe anchors =
     dedupe {} (List.map_filter (update_anchor describe)
                  (take MAX_NEW_EPISODES_TO_CHECK (filter isDownloadAnchor anchors)))"

section \<open>Notions for the properties\<close>

subsection \<open>The order of a feed\<close>

text \<open>
  The resolved timestamp of an episode of the full build is its \<open>dateObj\<close>; that of an
  item of the update is what the engine reads from its \<open>pubDate\<close>.  Both are meaningful
  only when the date is valid.  A list is newest first when no element is followed,
  anywhere later, by one with a greater timestamp.
\<close>

definition episodeTime :: "episode \<Rightarrow> int" where
  "episodeTime e = the (dateObj e)"

definition itemTime :: "(string \<Rightarrow> date) \<Rightarrow> xml_item \<Rightarrow> int" where
  "itemTime engine i = the (newDate engine (item_pubDate i))"

definition newestFirst :: "('a \<Rightarrow> int) \<Rightarrow> 'a list \<Rightarrow> bool" where
  "newestFirst time xs \<longleftrightarrow> sorted_wrt (\<lambda>a b. time b \<le> time a) xs"

text \<open>The five characters that \<open>escapeXml\<close> replaces.\<close>

definition xmlSpecial :: "char \<Rightarrow> bool" where
  "xmlSpecial c \<longleftrightarrow> c \<in> {CHR ''&'', CHR ''<'', CHR ''>'', CHR 0x22, CHR 0x27}"

definition escapeChar :: "char \<Rightarrow> string" where
  "escapeChar c =
     (if c = CHR ''&'' then ''&amp;'' else if c = CHR ''<'' then ''&lt;''
      else if c = CHR ''>'' then ''&gt;'' else if c = CHR 0x22 then ''&quot;''
      else if c = CHR 0x27 then ''&apos;'' else [c])"


section \<open>Pagination driver: \<open>expandAllStories\<close> (scrape-jazz-night.mjs)\<close>

text \<open>
  The loop of \<open>expandAllStories\<close> talks to the browser page five times per round:
  it counts the episode containers, counts the \<open>.options__load-more\<close> buttons, asks
  whether the first one is visible, clicks it, waits, and counts the containers again.
  What the page answers in the round entered with \<open>clickCount = k\<close> is \<open>page k\<close>; a
  round that does not leave the loop raises \<open>clickCount\<close> by exactly one, so the rounds
  are numbered by it.  A page call that rejects (a count of \<open>None\<close>) leaves the function
  by its exception.  \<open>btn.isVisible().catch(() => false)\<close> turns a rejection into
  \<open>False\<close>, and a click that throws is \<open>clickOk = False\<close>.
\<close>

record page_view =
  currentEpisodeCount :: "nat option"
  loadMoreCount :: "nat option"
  visible :: bool
  clickOk :: bool
  newEpisodeCount :: "nat option"

record loop_state =
  clickCount :: nat
  lastEpisodeCount :: nat
  noChangeCount :: nat

datatype stop =
    ReachedLimit | MaxClicks | NoButton | NotVisible | ClickFailed | Stalled | PageThrew

definition maxClicks :: nat where
  "maxClicks = 50"

function expandLoop :: "int \<Rightarrow> (nat \<Rightarrow> page_view) \<Rightarrow> loop_state \<Rightarrow> stop \<times> loop_state" where
  "expandLoop cap page st =
     (case currentEpisodeCount (page (clickCount st)) of
        None \<Rightarrow> (PageThrew, st)
      | Some cur \<Rightarrow>
          if cap \<le> int cur then (ReachedLimit, st)
          else if maxClicks \<le> clickCount st then (MaxClicks, st)
          else (case loadMoreCount (page (clickCount st)) of
            None \<Rightarrow> (PageThrew, st)
          | Some count \<Rightarrow>
              if count = 0 then (NoButton, st)
              else if \<not> visible (page (clickCount st)) then (NotVisible, st)
              else if \<not> clickOk (page (clickCount st))
                then (ClickFailed, st\<lparr>clickCount := clickCount st + 1\<rparr>)
              else (case newEpisodeCount (page (clickCount st)) of
                None \<Rightarrow> (PageThrew, st\<lparr>clickCount := clickCount st + 1\<rparr>)
              | Some new \<Rightarrow>
                  if new = lastEpisodeCount st then
                    (if 3 \<le> noChangeCount st + 1
                     then (Stalled, st\<lparr>clickCount := clickCount st + 1,
                                          noChangeCount := noChangeCount st + 1\<rparr>)
                     else expandLoop cap page
                            \<lparr>clickCount = clickCount st + 1, lastEpisodeCount = new,
                             noChangeCount = noChangeCount st + 1\<rparr>)
                  else expandLoop cap page
                         \<lparr>clickCount = clickCount st + 1, lastEpisodeCount = new,
                          noChangeCount = 0\<rparr>)))"
  by pat_completeness auto
termination
  by (relation "measure (\<lambda>(m, p, st). maxClicks - clickCount st)") auto

declare expandLoop.simps [simp del]

definition expandAllStories :: "int \<Rightarrow> (nat \<Rightarrow> page_view) \<Rightarrow> stop \<times> loop_state" where
  "expandAllStories cap page =
     expandLoop cap page \<lparr>clickCount = 0, lastEpisodeCount = 0, noChangeCount = 0\<rparr>"









definition oscillating_page :: "nat \<Rightarrow> page_view" where
  "oscillating_page k =
     \<lparr>currentEpisodeCount = Some (if even k then 5 else 6), loadMoreCount = Some 1,
      visible = True, clickOk = True, newEpisodeCount = Some (if even k then 6 else 5)\<rparr>"

section \<open>Example inputs\<close>

text \<open>A feed of two items, and the first of them as the page shows it again.\<close>

definition feedAB :: feed where
  "feedAB = \<lparr>items =
     [\<lparr>item_title = ''A'', item_link = ''https://www.npr.org/2025/10/14/a'',
       item_guid = ''https://ondemand.npr.org/a.mp3'',
       item_pubDate = ''Tue, 14 Oct 2025 00:00:00 GMT'', item_description = ''first'',
       item_enclosure_url = Some ''https://ondemand.npr.org/a.mp3''\<rparr>,
      \<lparr>item_title = ''B'', item_link = ''https://www.npr.org/2025/10/07/b'',
       item_guid = ''https://ondemand.npr.org/b.mp3'',
       item_pubDate = ''Tue, 07 Oct 2025 00:00:00 GMT'', item_description = ''second'',
       item_enclosure_url = Some ''https://ondemand.npr.org/b.mp3''\<rparr>],
     lastBuildDate = ''Tue, 14 Oct 2025 06:00:00 GMT''\<rparr>"

definition rawA :: raw_episode where
  "rawA = \<lparr>title = ''A again'', link = ''https://www.npr.org/2025/10/14/a'',
            dateText = ''October 14, 2025'', audioUrl = ''https://ondemand.npr.org/a.mp3'',
            description = ''first''\<rparr>"

text \<open>
  An article whose download URL carries the datestamp 20251345, the raw episode the full
  build extracts from it, and two raw episodes dated the day before and the day after
  13 October 2025.
\<close>

definition badArticle :: article where
  "badArticle =
     \<lparr>downloadLi = Some
        [\<lparr>a_href = ''https://ondemand.npr.org/anon.npr-mp3/npr/specials/2025/13/20251345_specials_x.mp3'',
          a_text = ''Download'', a_parentTag = ''LI'', a_parentText = ''Download''\<rparr>],
      body = \<lparr>e_tag = ''ARTICLE'',
               e_anchors =
                 [\<lparr>a_href = ''https://www.npr.org/2025/10/14/nx-s1-5573557/some-episode'',
                   a_text = ''Some Episode'', a_parentTag = ''H2'', a_parentText = ''Some Episode''\<rparr>,
                  \<lparr>a_href = ''https://ondemand.npr.org/anon.npr-mp3/npr/specials/2025/13/20251345_specials_x.mp3'',
                   a_text = ''Download'', a_parentTag = ''LI'', a_parentText = ''Download''\<rparr>],
               e_text = ''Some Episode Download''\<rparr>\<rparr>"

definition rawBad :: raw_episode where
  "rawBad =
     \<lparr>title = ''Some Episode'',
      link = ''https://www.npr.org/2025/10/14/nx-s1-5573557/some-episode'',
      dateText = ''2025-13-45'',
      audioUrl = ''https://ondemand.npr.org/anon.npr-mp3/npr/specials/2025/13/20251345_specials_x.mp3'',
      description = []\<rparr>"

definition raw13 :: raw_episode where
  "raw13 = \<lparr>title = ''Earlier'', link = ''https://www.npr.org/2025/10/13/a/earlier'',
             dateText = ''2025-10-13'',
             audioUrl = ''https://ondemand.npr.org/anon.npr-mp3/npr/specials/2025/10/20251013_specials_a.mp3'',
             description = []\<rparr>"

definition raw14 :: raw_episode where
  "raw14 = \<lparr>title = ''Later'', link = ''https://www.npr.org/2025/10/14/b/later'',
             dateText = ''2025-10-14'',
             audioUrl = ''https://ondemand.npr.org/anon.npr-mp3/npr/specials/2025/10/20251014_specials_b.mp3'',
             description = []\<rparr>"

text \<open>An episode that is not in \<open>feedAB\<close> yet, a week newer than its newest item.\<close>

definition rawNew :: raw_episode where
  "rawNew = \<lparr>title = ''New'', link = ''https://www.npr.org/2025/10/21/c/new'',
              dateText = ''2025-10-21'',
              audioUrl = ''https://ondemand.npr.org/anon.npr-mp3/npr/specials/2025/10/20251021_specials_c.mp3'',
              description = ''third''\<rparr>"

text \<open>An episode whose download URL has a query string, as NPR's download links do, and
  a feed with no items.\<close>

definition rawAmp :: raw_episode where
  "rawAmp = \<lparr>title = ''Query'', link = ''https://www.npr.org/2025/10/14/d/query'',
              dateText = ''2025-10-14'',
              audioUrl = ''https://ondemand.npr.org/anon.npr-mp3/npr/specials/2025/10/20251014_specials_d.mp3?d=3298&e=nx-s1-5573557'',
              description = ''fourth''\<rparr>"

definition emptyFeed :: feed where
  "emptyFeed = \<lparr>items = [], lastBuildDate = ''Tue, 14 Oct 2025 06:00:00 GMT''\<rparr>"

text \<open>
  An episode as NPR's page shows it: an article with the title link in an \<open>h2\<close>, a teaser
  link to the same story in a \<open>p\<close>, and the download link in
  \<open>li.audio-tool-download\<close>.  \<open>goodArticle\<close> is the article as the full build sees it,
  \<open>goodDownload\<close> its download anchor with its ancestors as the update sees it.  In
  \<open>teaserFirstArticle\<close> the teaser link stands before the title link.
\<close>

definition titleLink :: anchor where
  "titleLink = \<lparr>a_href = ''https://www.npr.org/2025/10/14/nx-s1-5573557/some-episode'',
                 a_text = ''Some Episode'', a_parentTag = ''H2'', a_parentText = ''Some Episode''\<rparr>"

definition teaserLink :: anchor where
  "teaserLink = \<lparr>a_href = ''https://www.npr.org/2025/10/14/nx-s1-5573557/some-episode'',
                  a_text = ''An hour of music.'', a_parentTag = ''P'',
                  a_parentText = ''An hour of music.''\<rparr>"

definition downloadLink :: anchor where
  "downloadLink =
     \<lparr>a_href = ''https://ondemand.npr.org/anon.npr-mp3/npr/specials/2025/10/20251014_specials_x.mp3'',
      a_text = ''Download'', a_parentTag = ''LI'', a_parentText = ''Download''\<rparr>"

definition goodBody :: element where
  "goodBody = \<lparr>e_tag = ''ARTICLE'', e_anchors = [titleLink, teaserLink, downloadLink],
                e_text = ''Some Episode An hour of music. Download''\<rparr>"

definition goodArticle :: article where
  "goodArticle = \<lparr>downloadLi = Some [downloadLink], body = goodBody\<rparr>"

definition goodDownload :: doc_anchor where
  "goodDownload =
     \<lparr>d_href = ''https://ondemand.npr.org/anon.npr-mp3/npr/specials/2025/10/20251014_specials_x.mp3'',
      d_text = ''Download'',
      d_ancestors =
        [\<lparr>e_tag = ''LI'', e_anchors = [downloadLink], e_text = ''Download''\<rparr>,
         \<lparr>e_tag = ''UL'', e_anchors = [downloadLink], e_text = ''Download''\<rparr>,
         goodBody,
         \<lparr>e_tag = ''BODY'', e_anchors = [titleLink, teaserLink, downloadLink],
          e_text = ''Some Episode An hour of music. Download''\<rparr>]\<rparr>"




section \<open>Verified properties\<close>

subsection \<open>The expansion loop stops, and only for the reasons given\<close>












text \<open>An oscillating count never stalls; the ceiling of 50 clicks ends the loop.\<close>

lemma oscillating_run:
  "expandAllStories 100 oscillating_page =
     (MaxClicks, \<lparr>clickCount = 50, lastEpisodeCount = 5, noChangeCount = 0\<rparr>)"
  by (simp add: expandAllStories_def expandLoop.simps oscillating_page_def maxClicks_def)


subsection \<open>Lists, sorting and slicing\<close>

lemma insertSorted_insort_key:
  "\<forall>y\<in>set ys. (sortCompare cmp x y \<le> 0) = (key x \<le> key y) \<Longrightarrow>
     insertSorted cmp x ys = insort_key key x ys"
  by (induction ys) auto

lemma arraySort_sort_key:
  fixes key :: "'a \<Rightarrow> int"
  shows "\<forall>x\<in>set xs. \<forall>y\<in>set xs. (sortCompare cmp x y \<le> 0) = (key x \<le> key y) \<Longrightarrow>
     arraySort cmp xs = sort_key key xs"
proof (induction xs)
  case Nil
  show ?case by (simp add: arraySort_def)
next
  case (Cons x xs)
  then have "arraySort cmp xs = sort_key key xs" by simp
  moreover have "insertSorted cmp x (sort_key key xs) = insort_key key x (sort_key key xs)"
    using Cons.prems by (intro insertSorted_insort_key) simp
  ultimately show ?case by (simp add: arraySort_def)
qed

lemma newestFirst_take_sort:
  "newestFirst time (take n (sort_key (\<lambda>x. - time x) xs))"
proof -
  have "sorted (map (\<lambda>x. - time x) (sort_key (\<lambda>x. - time x) xs))"
    by (rule sorted_sort_key)
  then have "sorted_wrt (\<lambda>a b. time b \<le> time a) (sort_key (\<lambda>x. - time x) xs)"
    by (simp add: sorted_map)
  then show ?thesis
    unfolding newestFirst_def by (rule sorted_wrt_take)
qed

lemma slice0_nonneg: "0 \<le> cap \<Longrightarrow> slice0 xs cap = take (nat cap) xs"
  by (simp add: slice0_def)

lemma set_mapIndexed: "y \<in> set (mapIndexed f xs) \<Longrightarrow> \<exists>i x. x \<in> set xs \<and> y = f i x"
  by (auto simp: mapIndexed_def dest: set_zip_rightD)

lemma length_mapIndexed: "length (mapIndexed f xs) = length xs"
  by (simp add: mapIndexed_def)

lemma set_insertSorted: "set (insertSorted cmp x ys) = insert x (set ys)"
  by (induction ys) auto

lemma set_arraySort: "set (arraySort cmp xs) = set xs"
  by (induction xs) (simp_all add: arraySort_def set_insertSorted)

lemma length_insertSorted: "length (insertSorted cmp x ys) = Suc (length ys)"
  by (induction ys) auto

lemma length_arraySort: "length (arraySort cmp xs) = length xs"
  by (induction xs) (simp_all add: arraySort_def length_insertSorted)

lemma distinct_map_insertSorted:
  "distinct (map f (insertSorted cmp x ys)) = (f x \<notin> f ` set ys \<and> distinct (map f ys))"
  by (induction ys) (auto simp: set_insertSorted)

lemma distinct_map_arraySort: "distinct (map f (arraySort cmp xs)) = distinct (map f xs)"
proof (induction xs)
  case Nil
  show ?case by (simp add: arraySort_def)
next
  case (Cons x xs)
  have "arraySort cmp (x # xs) = insertSorted cmp x (arraySort cmp xs)"
    by (simp add: arraySort_def)
  with Cons show ?case
    by (simp add: distinct_map_insertSorted set_arraySort)
qed

lemma map_mapIndexed_const:
  assumes "\<And>i x. g (f i x) = h x"
  shows "map g (mapIndexed f xs) = map h xs"
proof -
  have "map h xs = map h (map snd (zip [0..<length xs] xs))"
    by simp
  also have "\<dots> = map (\<lambda>p. h (snd p)) (zip [0..<length xs] xs)"
    by (simp only: map_map comp_def)
  also have "\<dots> = map g (mapIndexed f xs)"
    by (simp add: mapIndexed_def assms case_prod_beta)
  finally show ?thesis by simp
qed

lemma newItemsXml_urls:
  "map item_enclosure_url (newItemsXml engine clock eps) =
     map (\<lambda>ep. Some (escapeXml (audioUrl ep))) eps"
  unfolding newItemsXml_def map_map
  by (rule map_mapIndexed_const) (simp add: createItemXml_def update_toEpisode_def Let_def)

lemma extractExistingAudioUrls_iff:
  "u \<in> extractExistingAudioUrls f \<longleftrightarrow>
     u \<noteq> [] \<and> Some u \<in> set (map item_enclosure_url (items f))"
  by (auto simp: extractExistingAudioUrls_def split: option.splits if_splits)

subsection \<open>\<open>escapeXml\<close>, character by character\<close>

lemma replaceChar_append: "replaceChar c r (a @ b) = replaceChar c r a @ replaceChar c r b"
  by (simp add: replaceChar_def)

lemma escapeXml_append: "escapeXml (a @ b) = escapeXml a @ escapeXml b"
  by (simp add: escapeXml_def replaceChar_append)

lemma escapeXml_single: "escapeXml [c] = escapeChar c"
  by (simp add: escapeXml_def escapeChar_def replaceChar_def)

lemma escapeXml_Nil: "escapeXml [] = []"
  by (simp add: escapeXml_def replaceChar_def)

lemma escapeXml_Cons: "escapeXml (c # s) = escapeChar c @ escapeXml s"
  using escapeXml_append [of "[c]" s] by (simp add: escapeXml_single)

lemma length_escapeChar: "length (escapeChar c) = (if xmlSpecial c then length (escapeChar c) else 1)"
  by (simp add: escapeChar_def xmlSpecial_def)


lemma escapeChar_plain: "\<not> xmlSpecial c \<Longrightarrow> escapeChar c = [c]"
  by (simp add: escapeChar_def xmlSpecial_def)



lemma escapeXml_plain: "\<forall>c\<in>set s. \<not> xmlSpecial c \<Longrightarrow> escapeXml s = s"
  by (induction s) (simp_all add: escapeXml_Nil escapeXml_Cons escapeChar_plain)


subsection \<open>One extraction pass returns every audio URL once\<close>





subsection \<open>An update that finds nothing new leaves the file alone\<close>

lemma not_in_urls_filtered:
  "\<forall>ep\<in>set eps. audioUrl ep \<in> urls \<Longrightarrow> newEpisodesFiltered eps urls = []"
  by (simp add: newEpisodesFiltered_def)

text \<open>
  C4.  When the audio URL of every scraped episode is already an enclosure URL of the
  existing feed, \<open>updateFeedWithNewEpisodes\<close> reports no change and returns the feed as
  it was, and the update run ends with exit code 0 and the file on disk exactly as it
  found it: the feed is not serialised again, so nothing in it, \<open>lastBuildDate\<close>
  included, can drift.
\<close>

theorem update_without_news_is_noop:
  assumes "parseXml xmlContent = Some existingFeed"
    and "\<forall>ep\<in>set recent. audioUrl ep \<in> extractExistingAudioUrls existingFeed"
  shows "updateFeedWithNewEpisodes engine clock existingFeed recent
           (extractExistingAudioUrls existingFeed) = (False, existingFeed) \<and>
         update_main parseXml buildXml engine clock (Some recent) (Some xmlContent)
           = (Some xmlContent, 0)"
  using assms
  by (simp add: updateFeedWithNewEpisodes_def update_main_def not_in_urls_filtered)

theorem update_without_news_is_noop_witness:
  "(\<lambda>s. Some feedAB) ''<rss/>'' = Some feedAB \<and>
   audioUrl rawA \<in> extractExistingAudioUrls feedAB \<and>
   updateFeedWithNewEpisodes utcEngine (\<lambda>i. 1760412345678) feedAB [rawA]
     (extractExistingAudioUrls feedAB) = (False, feedAB) \<and>
   update_main (\<lambda>s. Some feedAB) (\<lambda>f. ''<rss>rewritten</rss>'') utcEngine (\<lambda>i. 1760412345678)
     (Some [rawA]) (Some ''<rss/>'') = (Some ''<rss/>'', 0)"
proof -
  have in_feed: "\<forall>ep\<in>set [rawA]. audioUrl ep \<in> extractExistingAudioUrls feedAB"
    by (simp add: rawA_def feedAB_def extractExistingAudioUrls_def)
  have parsed: "(\<lambda>s. Some feedAB) ''<rss/>'' = Some feedAB"
    by simp
  show ?thesis
    using update_without_news_is_noop [OF parsed in_feed] in_feed by simp
qed

subsection \<open>The date resolver on the three texts of the specification\<close>

lemma newDate_iso_2025_10_14: "newDate engine ''2025-10-14'' = Some 1760400000000"
  by code_simp

lemma civil_2025_10_14: "civilFromDays (1760400000000 div msPerDay) = (2025, 10, 14)"
  by code_simp

lemma resolve_iso_scrape:
  "scrape_parseDateToRss engine ''2025-10-14'' fallback = ''Tue, 14 Oct 2025 00:00:00 GMT''"
  by code_simp

lemma resolve_iso_update:
  "update_parseDateToRss engine ''2025-10-14'' fallback = ''Tue, 14 Oct 2025 00:00:00 GMT''"
  by code_simp

lemma resolve_empty_scrape: "scrape_parseDateToRss engine '''' fallback = toUTCString fallback"
  by (simp add: scrape_parseDateToRss_def)

lemma newDate_empty: "newDate engine '''' = None"
  by code_simp

lemma resolve_empty_update: "update_parseDateToRss engine '''' fallback = toUTCString fallback"
  by (simp add: update_parseDateToRss_def newDate_empty)

lemma newDate_garbage: "newDate engine ''garbage text'' = None"
  by code_simp

lemma garbage_facts: "trim ''garbage text'' \<noteq> []" "\<not> str_includes ''garbage text'' ''/''"
  by code_simp+

lemma resolve_garbage_scrape:
  "scrape_parseDateToRss engine ''garbage text'' fallback = toUTCString fallback"
  unfolding scrape_parseDateToRss_def Let_def newDate_garbage
  using garbage_facts by simp

lemma resolve_garbage_update:
  "update_parseDateToRss engine ''garbage text'' fallback = toUTCString fallback"
  by (simp add: update_parseDateToRss_def newDate_garbage)

text \<open>
  C6.  \<open>parseDateToRss\<close>, in the full build and in the update, is a function of the text
  and the fallback that always returns (no path of it throws, and its model has no
  error value).  Whatever the engine and the fallback are: for \<open>2025-10-14\<close> it returns
  the timestamp \<open>Tue, 14 Oct 2025 00:00:00 GMT\<close>, whose calendar date is 2025-10-14; for
  the empty text and for \<open>garbage text\<close> it returns the fallback, as \<open>toUTCString\<close>
  prints it.
\<close>

theorem date_resolver_examples:
  "scrape_parseDateToRss engine ''2025-10-14'' fallback = ''Tue, 14 Oct 2025 00:00:00 GMT'' \<and>
   update_parseDateToRss engine ''2025-10-14'' fallback = ''Tue, 14 Oct 2025 00:00:00 GMT'' \<and>
   (\<exists>t. newDate engine ''2025-10-14'' = Some t \<and> civilFromDays (t div msPerDay) = (2025, 10, 14)) \<and>
   scrape_parseDateToRss engine '''' fallback = toUTCString fallback \<and>
   update_parseDateToRss engine '''' fallback = toUTCString fallback \<and>
   scrape_parseDateToRss engine ''garbage text'' fallback = toUTCString fallback \<and>
   update_parseDateToRss engine ''garbage text'' fallback = toUTCString fallback"
  unfolding resolve_iso_scrape resolve_iso_update resolve_empty_scrape resolve_empty_update
    resolve_garbage_scrape resolve_garbage_update newDate_iso_2025_10_14
  using civil_2025_10_14 by simp

subsection \<open>A date text that does not parse\<close>

lemma scrape_badArticle: "scrapeEpisodes (\<lambda>e t. []) 100 [badArticle] = [rawBad]"
  by code_simp

lemma newDate_bad: "newDate engine ''2025-13-45'' = None"
  by code_simp

lemma bad_facts: "trim ''2025-13-45'' \<noteq> []" "\<not> str_includes ''2025-13-45'' ''/''"
  by code_simp+

lemma resolve_bad_scrape: "scrape_parseDateToRss engine ''2025-13-45'' None = ''Invalid Date''"
  unfolding scrape_parseDateToRss_def Let_def newDate_bad
  using bad_facts by (simp add: toUTCString_def)

lemma toEpisode_bad:
  "scrape_toEpisode engine now rawBad =
     \<lparr>title = title rawBad, link = link rawBad, dateText = ''2025-13-45'',
      audioUrl = audioUrl rawBad, description = [],
      dateObj = None, pubDate = ''Invalid Date'', guid = audioUrl rawBad\<rparr>"
  by (simp add: scrape_toEpisode_def rawBad_def newDate_bad resolve_bad_scrape)

lemma update_toEpisode_bad:
  "update_toEpisode engine now rawBad =
     \<lparr>title = title rawBad, link = link rawBad, dateText = ''2025-13-45'',
      audioUrl = audioUrl rawBad, description = [],
      dateObj = None, pubDate = ''Invalid Date'', guid = audioUrl rawBad\<rparr>"
  by (simp add: update_toEpisode_def update_parseDateToRss_def rawBad_def newDate_bad
        toUTCString_def)

lemma escape_invalid: "escapeXml ''Invalid Date'' = ''Invalid Date''"
  by code_simp

text \<open>
  C2 (the code breaks the claim).  The full build extracts the date text \<open>2025-13-45\<close>
  from the download URL of \<open>badArticle\<close>.  No engine parses it, so \<open>dateObj\<close> is an invalid
  date; \<open>main\<close> hands this very \<open>dateObj\<close> to \<open>parseDateToRss\<close> as the fallback, and the
  episode's \<open>pubDate\<close> is the text \<open>Invalid Date\<close>, in the full build and, for the same
  raw episode, in the update.
\<close>

theorem unparseable_date_invalid_pubDate:
  "scrapeEpisodes (\<lambda>e t. []) 100 [badArticle] = [rawBad] \<and>
   pubDate (scrape_toEpisode engine now rawBad) = ''Invalid Date'' \<and>
   map pubDate (scrape_feedItems engine clock 100 [rawBad]) = [''Invalid Date''] \<and>
   item_pubDate (createItemXml (update_toEpisode engine now rawBad)) = ''Invalid Date''"
  by (simp add: scrape_badArticle toEpisode_bad update_toEpisode_bad createItemXml_def
        escape_invalid scrape_feedItems_def scrape_episodes_def mapIndexed_def
        buildRss_episodes_def arraySort_def slice0_def)

subsection \<open>Sorting and capping\<close>

lemma scrape_toEpisode_sel:
  "dateObj (scrape_toEpisode engine now ep) =
     (if dateText ep \<noteq> [] then newDate engine (dateText ep) else Some now)"
  "dateText (scrape_toEpisode engine now ep) = dateText ep"
  "audioUrl (scrape_toEpisode engine now ep) = audioUrl ep"
  by (simp_all add: scrape_toEpisode_def Let_def)

lemma scrape_episodes_valid:
  assumes "\<forall>ep\<in>set rawEpisodes. dateText ep = [] \<or> newDate engine (dateText ep) \<noteq> None"
    and "e \<in> set (scrape_episodes engine clock rawEpisodes)"
  shows "dateObj e \<noteq> None"
proof -
  obtain i ep where "ep \<in> set rawEpisodes" "e = scrape_toEpisode engine (clock i) ep"
    using assms(2) unfolding scrape_episodes_def by (blast dest: set_mapIndexed)
  with assms(1) show ?thesis by (auto simp: scrape_toEpisode_sel)
qed

lemma compareDateObj_key:
  "dateObj a \<noteq> None \<Longrightarrow> dateObj b \<noteq> None \<Longrightarrow>
     (sortCompare compareDateObj a b \<le> 0) = (- episodeTime a \<le> - episodeTime b)"
  by (auto simp: sortCompare_def compareDateObj_def dateMinus_def episodeTime_def)

lemma buildRss_episodes_sorted:
  assumes "\<forall>e\<in>set episodes. dateObj e \<noteq> None" and "0 \<le> cap"
  shows "buildRss_episodes cap episodes =
           take (nat cap) (sort_key (\<lambda>e. - episodeTime e) episodes)"
proof -
  have "arraySort compareDateObj episodes = sort_key (\<lambda>e. - episodeTime e) episodes"
    using assms(1) by (intro arraySort_sort_key) (simp add: compareDateObj_key)
  then show ?thesis
    using assms(2) by (simp add: buildRss_episodes_def slice0_nonneg)
qed

lemma comparePubDate_key:
  "newDate engine (item_pubDate a) \<noteq> None \<Longrightarrow> newDate engine (item_pubDate b) \<noteq> None \<Longrightarrow>
     (sortCompare (comparePubDate engine) a b \<le> 0) = (- itemTime engine a \<le> - itemTime engine b)"
  by (auto simp: sortCompare_def comparePubDate_def dateMinus_def itemTime_def)

text \<open>
  The merge as the specification describes it, for the inputs on which every date
  resolves: in the full build, when the cap is not negative and every date text is empty
  or parses; in the update, when something new was found and the engine reads the
  \<open>pubDate\<close> of every item, new and old.  Then the output is the stably sorted list of
  all items, newest first, cut off after the cap (100 in the update): it is no longer
  than the cap, it is newest first, and what was dropped is the oldest overflow.
\<close>

theorem merger_sorted_and_capped:
  "(0 \<le> cap \<and> (\<forall>ep\<in>set rawEpisodes. dateText ep = [] \<or> newDate engine (dateText ep) \<noteq> None) \<longrightarrow>
      scrape_feedItems engine clock cap rawEpisodes =
        take (nat cap) (sort_key (\<lambda>e. - episodeTime e) (scrape_episodes engine clock rawEpisodes)) \<and>
      int (length (scrape_feedItems engine clock cap rawEpisodes)) \<le> cap \<and>
      newestFirst episodeTime (scrape_feedItems engine clock cap rawEpisodes)) \<and>
   (newEpisodesFiltered newEpisodes urls \<noteq> [] \<and>
    (\<forall>i\<in>set (newItemsXml engine clock (newEpisodesFiltered newEpisodes urls) @ items existingFeed).
        newDate engine (item_pubDate i) \<noteq> None) \<longrightarrow>
      items (snd (updateFeedWithNewEpisodes engine clock existingFeed newEpisodes urls)) =
        take 100 (sort_key (\<lambda>i. - itemTime engine i)
          (newItemsXml engine clock (newEpisodesFiltered newEpisodes urls) @ items existingFeed)) \<and>
      length (items (snd (updateFeedWithNewEpisodes engine clock existingFeed newEpisodes urls))) \<le> 100 \<and>
      newestFirst (itemTime engine)
        (items (snd (updateFeedWithNewEpisodes engine clock existingFeed newEpisodes urls))))"
proof (intro conjI impI)
  assume a: "0 \<le> cap \<and>
    (\<forall>ep\<in>set rawEpisodes. dateText ep = [] \<or> newDate engine (dateText ep) \<noteq> None)"
  then have valid: "\<forall>e\<in>set (scrape_episodes engine clock rawEpisodes). dateObj e \<noteq> None"
    using scrape_episodes_valid [of rawEpisodes engine _ clock] by blast
  show eq: "scrape_feedItems engine clock cap rawEpisodes =
        take (nat cap) (sort_key (\<lambda>e. - episodeTime e) (scrape_episodes engine clock rawEpisodes))"
    unfolding scrape_feedItems_def using valid a by (intro buildRss_episodes_sorted) simp_all
  have "0 \<le> cap" using a by simp
  then show "int (length (scrape_feedItems engine clock cap rawEpisodes)) \<le> cap"
    unfolding eq by (auto simp: min_def)
  show "newestFirst episodeTime (scrape_feedItems engine clock cap rawEpisodes)"
    unfolding eq by (rule newestFirst_take_sort)
next
  let ?all = "newItemsXml engine clock (newEpisodesFiltered newEpisodes urls) @ items existingFeed"
  assume b: "newEpisodesFiltered newEpisodes urls \<noteq> [] \<and>
    (\<forall>i\<in>set ?all. newDate engine (item_pubDate i) \<noteq> None)"
  have "arraySort (comparePubDate engine) ?all = sort_key (\<lambda>i. - itemTime engine i) ?all"
    using b by (intro arraySort_sort_key) (simp add: comparePubDate_key)
  then show eq: "items (snd (updateFeedWithNewEpisodes engine clock existingFeed newEpisodes urls)) =
        take 100 (sort_key (\<lambda>i. - itemTime engine i) ?all)"
    using b by (simp add: updateFeedWithNewEpisodes_def Let_def update_MAX_EPISODES_def slice0_def)
  show "length (items (snd (updateFeedWithNewEpisodes engine clock existingFeed newEpisodes urls))) \<le> 100"
    unfolding eq by simp
  show "newestFirst (itemTime engine)
        (items (snd (updateFeedWithNewEpisodes engine clock existingFeed newEpisodes urls)))"
    unfolding eq by (rule newestFirst_take_sort)
qed

lemma newDate_13: "newDate engine ''2025-10-13'' = Some 1760313600000"
  by code_simp

lemma full_build_example:
  "map dateText (scrape_feedItems utcEngine (\<lambda>i. 1761048000000) 1 [raw13, raw14]) = [''2025-10-14'']"
  by code_simp

lemma update_example:
  "map item_title (items (snd (updateFeedWithNewEpisodes utcEngine (\<lambda>i. 1761048000000) feedAB
       [rawA, rawNew] (extractExistingAudioUrls feedAB)))) = [''New'', ''A'', ''B'']"
  by code_simp

lemma update_example_valid:
  "newEpisodesFiltered [rawA, rawNew] (extractExistingAudioUrls feedAB) \<noteq> [] \<and>
   (\<forall>i\<in>set (newItemsXml utcEngine (\<lambda>i. 1761048000000)
              (newEpisodesFiltered [rawA, rawNew] (extractExistingAudioUrls feedAB)) @ items feedAB).
      newDate utcEngine (item_pubDate i) \<noteq> None)"
  by code_simp

theorem merger_sorted_and_capped_witness:
  "map dateText (scrape_feedItems utcEngine (\<lambda>i. 1761048000000) 1 [raw13, raw14]) = [''2025-10-14''] \<and>
   int (length (scrape_feedItems utcEngine (\<lambda>i. 1761048000000) 1 [raw13, raw14])) \<le> 1 \<and>
   newestFirst episodeTime (scrape_feedItems utcEngine (\<lambda>i. 1761048000000) 1 [raw13, raw14]) \<and>
   map item_title (items (snd (updateFeedWithNewEpisodes utcEngine (\<lambda>i. 1761048000000) feedAB
       [rawA, rawNew] (extractExistingAudioUrls feedAB)))) = [''New'', ''A'', ''B''] \<and>
   newestFirst (itemTime utcEngine)
     (items (snd (updateFeedWithNewEpisodes utcEngine (\<lambda>i. 1761048000000) feedAB
       [rawA, rawNew] (extractExistingAudioUrls feedAB))))"
proof -
  have full: "0 \<le> (1::int) \<and>
      (\<forall>ep\<in>set [raw13, raw14]. dateText ep = [] \<or> newDate utcEngine (dateText ep) \<noteq> None)"
    by (simp add: raw13_def raw14_def newDate_13 newDate_iso_2025_10_14)
  note inst = merger_sorted_and_capped [where cap = 1 and rawEpisodes = "[raw13, raw14]"
        and engine = utcEngine and clock = "\<lambda>i. 1761048000000"
        and newEpisodes = "[rawA, rawNew]" and urls = "extractExistingAudioUrls feedAB"
        and existingFeed = feedAB]
  from inst full
  have p1: "int (length (scrape_feedItems utcEngine (\<lambda>i. 1761048000000) 1 [raw13, raw14])) \<le> 1 \<and>
      newestFirst episodeTime (scrape_feedItems utcEngine (\<lambda>i. 1761048000000) 1 [raw13, raw14])"
    by blast
  from inst update_example_valid
  have p2: "newestFirst (itemTime utcEngine)
     (items (snd (updateFeedWithNewEpisodes utcEngine (\<lambda>i. 1761048000000) feedAB
       [rawA, rawNew] (extractExistingAudioUrls feedAB))))"
    by blast
  from p1 p2 full_build_example update_example show ?thesis
    by blast
qed

lemma dateObj_examples:
  "dateObj (scrape_toEpisode engine now raw13) = Some 1760313600000"
  "dateObj (scrape_toEpisode engine now rawBad) = None"
  "dateObj (scrape_toEpisode engine now raw14) = Some 1760400000000"
  by (simp_all add: scrape_toEpisode_sel raw13_def rawBad_def raw14_def newDate_bad newDate_13
        newDate_iso_2025_10_14)

lemma dateText_examples:
  "dateText (scrape_toEpisode engine now raw13) = ''2025-10-13''"
  "dateText (scrape_toEpisode engine now rawBad) = ''2025-13-45''"
  "dateText (scrape_toEpisode engine now raw14) = ''2025-10-14''"
  by (simp_all add: scrape_toEpisode_sel raw13_def rawBad_def raw14_def)

text \<open>
  C1 (the code breaks the claim).  Of three raw episodes dated 13 October, \<open>2025-13-45\<close>
  and 14 October, the second has an invalid \<open>dateObj\<close>.  Every comparison with it yields
  \<open>NaN\<close>, which the sort reads as "equal", so the three stay as they came: the episode of
  13 October stands before that of 14 October in the feed, whatever the engine and the
  clock.
\<close>

theorem invalid_date_breaks_order:
  "map dateObj (scrape_feedItems engine clock 100 [raw13, rawBad, raw14]) =
     [Some 1760313600000, None, Some 1760400000000] \<and>
   map dateText (scrape_feedItems engine clock 100 [raw13, rawBad, raw14]) =
     [''2025-10-13'', ''2025-13-45'', ''2025-10-14'']"
  by (simp add: scrape_feedItems_def scrape_episodes_def mapIndexed_def buildRss_episodes_def
        arraySort_def slice0_def sortCompare_def compareDateObj_def dateMinus_def
        dateObj_examples dateText_examples upt_rec)

subsection \<open>Merging the same episodes twice\<close>

lemma mergeNew_unfold:
  "mergeNew engine clock f eps =
     (if newEpisodesFiltered eps (extractExistingAudioUrls f) = [] then f
      else f\<lparr>items := take 100 (arraySort (comparePubDate engine)
                  (newItemsXml engine clock (newEpisodesFiltered eps (extractExistingAudioUrls f))
                   @ items f)),
             lastBuildDate := toUTCString (Some (clock (length
                 (newEpisodesFiltered eps (extractExistingAudioUrls f)))))\<rparr>)"
  by (simp add: mergeNew_def updateFeedWithNewEpisodes_def Let_def slice0_def
        update_MAX_EPISODES_def)

lemma mergeNew_noop:
  "\<forall>ep\<in>set eps. audioUrl ep \<in> extractExistingAudioUrls f \<Longrightarrow> mergeNew engine clock f eps = f"
  by (simp add: mergeNew_unfold not_in_urls_filtered)

text \<open>
  What the merge does keep of the specification's promise.  When no audio URL of the
  new episodes is empty or contains one of the five characters that \<open>escapeXml\<close>
  replaces: a feed without duplicate enclosure URLs merged with episodes without
  duplicate audio URLs has no duplicate enclosure URLs; and when old and new items
  together fit under the cap of 100, merging the same episodes into the result once more
  changes nothing, whatever the clock shows then.
\<close>

theorem merge_without_specials:
  assumes plain: "\<forall>ep\<in>set newEpisodes. audioUrl ep \<noteq> [] \<and> (\<forall>c\<in>set (audioUrl ep). \<not> xmlSpecial c)"
  shows "(distinct (map item_enclosure_url (items existingFeed)) \<and>
          distinct (map audioUrl newEpisodes) \<longrightarrow>
            distinct (map item_enclosure_url
              (items (mergeNew engine clock existingFeed newEpisodes)))) \<and>
         (length (items existingFeed) + length newEpisodes \<le> 100 \<longrightarrow>
            mergeNew engine clock' (mergeNew engine clock existingFeed newEpisodes) newEpisodes
              = mergeNew engine clock existingFeed newEpisodes)"
proof (intro conjI impI)
  let ?urls = "extractExistingAudioUrls existingFeed"
  let ?new = "newEpisodesFiltered newEpisodes ?urls"
  let ?newItems = "newItemsXml engine clock ?new"
  let ?F1 = "mergeNew engine clock existingFeed newEpisodes"
  have new_sub: "set ?new \<subseteq> set newEpisodes"
    by (auto simp: newEpisodesFiltered_def)
  have new_urls: "map item_enclosure_url ?newItems = map (\<lambda>ep. Some (audioUrl ep)) ?new"
  proof -
    have "map (\<lambda>ep. Some (escapeXml (audioUrl ep))) ?new = map (\<lambda>ep. Some (audioUrl ep)) ?new"
      using plain new_sub by (intro map_cong) (auto simp: escapeXml_plain)
    then show ?thesis by (simp add: newItemsXml_urls)
  qed
  {
    assume d: "distinct (map item_enclosure_url (items existingFeed)) \<and>
          distinct (map audioUrl newEpisodes)"
    have d_new: "distinct (map (\<lambda>ep. Some (audioUrl ep)) ?new)"
    proof -
      have "distinct (map audioUrl ?new)"
        using d unfolding newEpisodesFiltered_def by (simp add: distinct_map_filter)
      then have "distinct (map Some (map audioUrl ?new))"
        by (subst distinct_map) simp
      then show ?thesis by (simp add: comp_def)
    qed
    have disjoint: "Some (audioUrl ep) \<notin> set (map item_enclosure_url (items existingFeed))"
      if "ep \<in> set ?new" for ep
    proof -
      from that have "audioUrl ep \<notin> ?urls" by (simp add: newEpisodesFiltered_def)
      moreover from that new_sub plain have "audioUrl ep \<noteq> []" by blast
      ultimately show ?thesis by (simp add: extractExistingAudioUrls_iff)
    qed
    have "distinct (map item_enclosure_url (?newItems @ items existingFeed))"
      using d d_new disjoint by (auto simp: new_urls)
    then have "distinct (map item_enclosure_url
        (take 100 (arraySort (comparePubDate engine) (?newItems @ items existingFeed))))"
      by (simp add: take_map [symmetric] distinct_take distinct_map_arraySort del: map_append)
    with d show "distinct (map item_enclosure_url (items ?F1))"
      by (simp add: mergeNew_unfold)
  }
  {
    assume len: "length (items existingFeed) + length newEpisodes \<le> 100"
    have "audioUrl ep \<in> extractExistingAudioUrls ?F1" if ep: "ep \<in> set newEpisodes" for ep
    proof (cases "?new = []")
      case True
      then have "audioUrl ep \<in> ?urls"
        using ep by (auto simp: newEpisodesFiltered_def filter_empty_conv)
      with True show ?thesis by (simp add: mergeNew_unfold)
    next
      case False
      have "length ?new \<le> length newEpisodes"
        by (simp add: newEpisodesFiltered_def)
      then have short: "length (?newItems @ items existingFeed) \<le> 100"
        using len by (simp add: newItemsXml_def length_mapIndexed)
      have items: "items ?F1 = arraySort (comparePubDate engine) (?newItems @ items existingFeed)"
        using False short by (simp add: mergeNew_unfold length_arraySort)
      have urls: "set (map item_enclosure_url (items ?F1)) =
          set (map (\<lambda>ep. Some (audioUrl ep)) ?new) \<union>
          set (map item_enclosure_url (items existingFeed))"
        unfolding items by (simp add: set_arraySort new_urls [symmetric] image_Un)
      have nonempty: "audioUrl ep \<noteq> []" using plain ep by blast
      show ?thesis
      proof (cases "audioUrl ep \<in> ?urls")
        case True
        then show ?thesis
          unfolding extractExistingAudioUrls_iff urls by simp
      next
        case False
        then have "ep \<in> set ?new" using ep by (simp add: newEpisodesFiltered_def)
        then show ?thesis
          unfolding extractExistingAudioUrls_iff urls using nonempty by simp
      qed
    qed
    then show "mergeNew engine clock' ?F1 newEpisodes = ?F1"
      by (intro mergeNew_noop) blast
  }
qed

lemma witness_inputs_plain:
  "\<forall>ep\<in>set [rawA, rawNew]. audioUrl ep \<noteq> [] \<and> (\<forall>c\<in>set (audioUrl ep). \<not> xmlSpecial c)"
  by code_simp

lemma witness_inputs_distinct:
  "distinct (map item_enclosure_url (items feedAB)) \<and> distinct (map audioUrl [rawA, rawNew])"
  by code_simp

lemma witness_merge:
  "map item_enclosure_url (items (mergeNew utcEngine (\<lambda>i. 1761048000000) feedAB [rawA, rawNew])) =
     [Some ''https://ondemand.npr.org/anon.npr-mp3/npr/specials/2025/10/20251021_specials_c.mp3'',
      Some ''https://ondemand.npr.org/a.mp3'', Some ''https://ondemand.npr.org/b.mp3'']"
  by code_simp

theorem merge_without_specials_witness:
  "map item_enclosure_url (items (mergeNew utcEngine (\<lambda>i. 1761048000000) feedAB [rawA, rawNew])) =
     [Some ''https://ondemand.npr.org/anon.npr-mp3/npr/specials/2025/10/20251021_specials_c.mp3'',
      Some ''https://ondemand.npr.org/a.mp3'', Some ''https://ondemand.npr.org/b.mp3''] \<and>
   distinct (map item_enclosure_url
     (items (mergeNew utcEngine (\<lambda>i. 1761048000000) feedAB [rawA, rawNew]))) \<and>
   mergeNew utcEngine (\<lambda>i. 1761134400000)
     (mergeNew utcEngine (\<lambda>i. 1761048000000) feedAB [rawA, rawNew]) [rawA, rawNew] =
   mergeNew utcEngine (\<lambda>i. 1761048000000) feedAB [rawA, rawNew]"
proof -
  note inst = merge_without_specials [OF witness_inputs_plain,
      where existingFeed = feedAB and engine = utcEngine and clock = "\<lambda>i. 1761048000000"
        and clock' = "\<lambda>i. 1761134400000"]
  have len: "length (items feedAB) + length [rawA, rawNew] \<le> 100"
    by (simp add: feedAB_def)
  from inst witness_inputs_distinct len witness_merge show ?thesis
    by blast
qed

lemma escaped_amp_url:
  "escapeXml (audioUrl rawAmp) =
     ''https://ondemand.npr.org/anon.npr-mp3/npr/specials/2025/10/20251014_specials_d.mp3?d=3298&amp;e=nx-s1-5573557''"
  by code_simp

lemma map_const_arraySort:
  assumes "\<forall>x\<in>set xs. f x = v"
  shows "map f (arraySort cmp xs) = replicate (length xs) v"
proof -
  have "\<forall>x\<in>set (arraySort cmp xs). f x = v"
    using assms by (simp add: set_arraySort)
  then have "map f (arraySort cmp xs) = replicate (length (arraySort cmp xs)) v"
    by (simp add: map_replicate_const [symmetric] cong: map_cong)
  then show ?thesis by (simp add: length_arraySort)
qed

lemma length_newItemsXml: "length (newItemsXml engine clock eps) = length eps"
  by (simp add: newItemsXml_def length_mapIndexed)

lemma first_merge_amp:
  "map item_enclosure_url (items (mergeNew engine clock emptyFeed [rawAmp])) =
     [Some (escapeXml (audioUrl rawAmp))]"
proof -
  have none: "extractExistingAudioUrls emptyFeed = {}"
    by (simp add: extractExistingAudioUrls_def emptyFeed_def)
  have empty: "items emptyFeed = []"
    by (simp add: emptyFeed_def)
  have "map item_enclosure_url (arraySort (comparePubDate engine)
          (newItemsXml engine clock [rawAmp] @ items emptyFeed)) =
        replicate (length (newItemsXml engine clock [rawAmp] @ items emptyFeed))
          (Some (escapeXml (audioUrl rawAmp)))"
    by (rule map_const_arraySort)
       (use newItemsXml_urls [of engine clock "[rawAmp]"] in \<open>auto simp: empty\<close>)
  then show ?thesis
    by (simp add: mergeNew_unfold none empty newEpisodesFiltered_def take_map [symmetric]
          length_newItemsXml del: map_append)
qed

lemma amp_url_changed: "escapeXml (audioUrl rawAmp) \<noteq> audioUrl rawAmp"
  by code_simp

lemma amp_url_nonempty: "escapeXml (audioUrl rawAmp) \<noteq> []"
  by code_simp

text \<open>
  C8 (the code breaks the claim).  The download URL of \<open>rawAmp\<close> has a query string with
  an ampersand.  \<open>createItemXml\<close> stores the URL escaped, so after the first merge the
  feed knows the episode under \<open>...&amp;e=...\<close>; the next run compares the page's
  unescaped URL with it, takes the episode for new and adds it again.  Whatever the
  engine and the clocks, the feed then has two items with the same enclosure URL, and
  merging twice is not merging once.
\<close>

theorem escaped_url_merged_twice:
  "map item_enclosure_url (items (mergeNew engine clock emptyFeed [rawAmp])) =
     [Some (escapeXml (audioUrl rawAmp))] \<and>
   map item_enclosure_url
     (items (mergeNew engine clock' (mergeNew engine clock emptyFeed [rawAmp]) [rawAmp])) =
     [Some (escapeXml (audioUrl rawAmp)), Some (escapeXml (audioUrl rawAmp))] \<and>
   escapeXml (audioUrl rawAmp) =
     ''https://ondemand.npr.org/anon.npr-mp3/npr/specials/2025/10/20251014_specials_d.mp3?d=3298&amp;e=nx-s1-5573557''"
proof -
  let ?F1 = "mergeNew engine clock emptyFeed [rawAmp]"
  let ?u = "escapeXml (audioUrl rawAmp)"
  have urls1: "map item_enclosure_url (items ?F1) = [Some ?u]"
    by (rule first_merge_amp)
  have known: "extractExistingAudioUrls ?F1 = {?u}"
    using amp_url_nonempty by (auto simp: extractExistingAudioUrls_iff urls1)
  have filtered: "newEpisodesFiltered [rawAmp] (extractExistingAudioUrls ?F1) = [rawAmp]"
    using amp_url_changed by (simp add: newEpisodesFiltered_def known)
  have len1: "length (items ?F1) = 1"
    using arg_cong [OF urls1, of length] by simp
  have "map item_enclosure_url (arraySort (comparePubDate engine)
          (newItemsXml engine clock' [rawAmp] @ items ?F1)) =
        replicate (length (newItemsXml engine clock' [rawAmp] @ items ?F1)) (Some ?u)"
  proof (rule map_const_arraySort)
    have "\<forall>x\<in>set (items ?F1). item_enclosure_url x = Some ?u"
      using arg_cong [OF urls1, of set] by auto
    moreover have "\<forall>x\<in>set (newItemsXml engine clock' [rawAmp]). item_enclosure_url x = Some ?u"
      using arg_cong [OF newItemsXml_urls [of engine clock' "[rawAmp]"], of set] by auto
    ultimately show "\<forall>x\<in>set (newItemsXml engine clock' [rawAmp] @ items ?F1).
        item_enclosure_url x = Some ?u"
      by auto
  qed
  then have "map item_enclosure_url (items (mergeNew engine clock' ?F1 [rawAmp])) =
      [Some ?u, Some ?u]"
    by (subst mergeNew_unfold)
       (simp add: filtered take_map [symmetric] length_newItemsXml len1 del: map_append)
  with urls1 escaped_amp_url show ?thesis by simp
qed

subsection \<open>The date text of an episode\<close>

lemma full_build_reads_url: "map dateText (scrapeEpisodes describe 100 [goodArticle]) = [''2025-10-14'']"
  by code_simp

lemma update_reads_no_url: "map dateText (scrapeRecentEpisodes describe' [goodDownload]) = ['''']"
  by code_simp

text \<open>
  C3 (the code breaks the claim).  For the same episode, whose download URL ends in
  \<open>/2025/10/20251014_specials_x.mp3\<close>, the full build extracts the date text
  \<open>2025-10-14\<close> and the update extracts none: \<open>scrapeRecentEpisodes\<close> looks for a
  full month name in the text around the title and for nothing else.
\<close>

theorem update_ignores_url_datestamp:
  "map audioUrl (scrapeEpisodes describe 100 [goodArticle]) =
     [''https://ondemand.npr.org/anon.npr-mp3/npr/specials/2025/10/20251014_specials_x.mp3''] \<and>
   map dateText (scrapeEpisodes describe 100 [goodArticle]) = [''2025-10-14''] \<and>
   map audioUrl (scrapeRecentEpisodes describe' [goodDownload]) =
     [''https://ondemand.npr.org/anon.npr-mp3/npr/specials/2025/10/20251014_specials_x.mp3''] \<and>
   map dateText (scrapeRecentEpisodes describe' [goodDownload]) = ['''']"
  by code_simp

lemma url_date_example: "urlDateText ''.../2025/10/20251014_specials_x.mp3'' = ''2025-10-14''"
  by code_simp

lemma url_date_npr:
  "urlDateText ''https://ondemand.npr.org/anon.npr-mp3/npr/specials/2025/10/20251014_specials_nicole_glover-headline_tbd.mp3'' = ''2025-10-14''"
  by code_simp

text \<open>
  The date text of the full build: the datestamp of the URL if there is one, else the
  first full month-name date of the article's text, else the first abbreviated one,
  else the first ISO date, else the first slash date, else nothing.  An earlier strategy
  wins over a later one wherever in the text their matches stand.
\<close>

theorem scrape_dateText_priority:
  "(urlDateText url \<noteq> [] \<longrightarrow> scrape_dateText url contextText = urlDateText url) \<and>
   (urlDateText url = [] \<and> regexMatch fullMonthRe contextText = Some m \<longrightarrow>
      scrape_dateText url contextText = m) \<and>
   (urlDateText url = [] \<and> regexMatch fullMonthRe contextText = None \<and>
    regexMatch abbrMonthRe contextText = Some m \<longrightarrow> scrape_dateText url contextText = m) \<and>
   (urlDateText url = [] \<and> regexMatch fullMonthRe contextText = None \<and>
    regexMatch abbrMonthRe contextText = None \<and> regexMatch isoDateRe contextText = Some m \<longrightarrow>
      scrape_dateText url contextText = m) \<and>
   (urlDateText url = [] \<and> regexMatch fullMonthRe contextText = None \<and>
    regexMatch abbrMonthRe contextText = None \<and> regexMatch isoDateRe contextText = None \<and>
    regexMatch slashDateRe contextText = Some m \<longrightarrow> scrape_dateText url contextText = m) \<and>
   (urlDateText url = [] \<and> regexMatch fullMonthRe contextText = None \<and>
    regexMatch abbrMonthRe contextText = None \<and> regexMatch isoDateRe contextText = None \<and>
    regexMatch slashDateRe contextText = None \<longrightarrow> scrape_dateText url contextText = []) \<and>
   urlDateText ''.../2025/10/20251014_specials_x.mp3'' = ''2025-10-14''"
  by (simp add: scrape_dateText_def url_date_example)

lemma priority_example_facts:
  "urlDateText ''https://ondemand.npr.org/x.mp3'' = []"
  "regexMatch fullMonthRe ''Oct 1, 2024, 2020-01-01, 3/4/2019, October 2, 2023'' = Some ''October 2, 2023''"
  "regexMatch abbrMonthRe ''Oct 1, 2024, 2020-01-01, 3/4/2019'' = Some ''Oct 1, 2024''"
  "regexMatch fullMonthRe ''Oct 1, 2024, 2020-01-01, 3/4/2019'' = None"
  by code_simp+

theorem scrape_dateText_priority_witness:
  "urlDateText ''.../2025/10/20251014_specials_x.mp3'' \<noteq> [] \<and>
   scrape_dateText ''.../2025/10/20251014_specials_x.mp3''
     ''Oct 1, 2024, 2020-01-01, 3/4/2019, October 2, 2023'' = ''2025-10-14'' \<and>
   scrape_dateText ''https://ondemand.npr.org/x.mp3''
     ''Oct 1, 2024, 2020-01-01, 3/4/2019, October 2, 2023'' = ''October 2, 2023'' \<and>
   scrape_dateText ''https://ondemand.npr.org/x.mp3''
     ''Oct 1, 2024, 2020-01-01, 3/4/2019'' = ''Oct 1, 2024''"
  using scrape_dateText_priority [of "''.../2025/10/20251014_specials_x.mp3''"
      "''Oct 1, 2024, 2020-01-01, 3/4/2019, October 2, 2023''"]
    scrape_dateText_priority [of "''https://ondemand.npr.org/x.mp3''"
      "''Oct 1, 2024, 2020-01-01, 3/4/2019, October 2, 2023''" "''October 2, 2023''"]
    scrape_dateText_priority [of "''https://ondemand.npr.org/x.mp3''"
      "''Oct 1, 2024, 2020-01-01, 3/4/2019''" "''Oct 1, 2024''"]
    priority_example_facts url_date_example
  by simp

subsection \<open>The title anchor\<close>





lemma str_includes_refl_differs:
  "\<not> str_includes s p \<Longrightarrow> str_includes t p \<Longrightarrow> s \<noteq> t"
  by auto





subsection \<open>Text fields of new items are escaped twice\<close>



























end
